theory Spec2Isabelle
  imports Main "HOL-Library.Char_ord" "HOL-Library.List_Lexorder" "HOL-Library.Multiset"
begin

section \<open>Go strings\<close>

text \<open>
  A Go string is a sequence of bytes; \<^typ>\<open>string\<close> (a list of 8-bit characters) is
  the same thing. The functions of package \<open>strings\<close> that the handler calls are
  modelled on bytes. \<open>strings.TrimSpace\<close> and \<open>strings.ToLower\<close> are Unicode aware:
  on a string that holds only ASCII bytes they act bytewise, as written below; on a
  string with a byte \<open>\<ge> 0x80\<close> they decode UTF-8, and that part is a parameter.
\<close>

record unicode_lib =
  unicode_TrimSpace :: "string \<Rightarrow> string"
  unicode_ToLower :: "string \<Rightarrow> string"

definition HasPrefix :: "string \<Rightarrow> string \<Rightarrow> bool" where
  "HasPrefix s p = (take (length p) s = p)"

definition HasSuffix :: "string \<Rightarrow> string \<Rightarrow> bool" where
  "HasSuffix s p = (length p \<le> length s \<and> drop (length s - length p) s = p)"

definition TrimPrefix :: "string \<Rightarrow> string \<Rightarrow> string" where
  "TrimPrefix s p = (if HasPrefix s p then drop (length p) s else s)"

text \<open>\<open>strings.Split(s, sep)\<close> for a separator of one byte: one piece more than
  there are separators, empty pieces kept.\<close>

fun Split :: "string \<Rightarrow> char \<Rightarrow> string list" where
  "Split [] sep = [[]]"
| "Split (c # cs) sep =
     (if c = sep then [] # Split cs sep
      else (case Split cs sep of
              [] \<Rightarrow> [[c]]
            | t # ts \<Rightarrow> (c # t) # ts))"

definition isASCII :: "string \<Rightarrow> bool" where
  "isASCII s = list_all (\<lambda>c. \<not> digit7 c) s"

definition asciiSpace :: "char \<Rightarrow> bool" where
  "asciiSpace c = (c \<in> {CHR 0x09, CHR 0x0A, CHR 0x0B, CHR 0x0C, CHR 0x0D, CHR '' ''})"

definition TrimSpace :: "unicode_lib \<Rightarrow> string \<Rightarrow> string" where
  "TrimSpace u s =
     (if isASCII s then rev (dropWhile asciiSpace (rev (dropWhile asciiSpace s)))
      else unicode_TrimSpace u s)"

definition lowerASCII :: "char \<Rightarrow> char" where
  "lowerASCII c =
     (if CHR ''A'' \<le> c \<and> c \<le> CHR ''Z'' then char_of (of_char c + (32::nat)) else c)"

definition ToLower :: "unicode_lib \<Rightarrow> string \<Rightarrow> string" where
  "ToLower u s = (if isASCII s then map lowerASCII s else unicode_ToLower u s)"

section \<open>HTTP resource descriptors\<close>

record httpResource =
  URL :: string
  LoadingMode :: string
  CrossOrigin :: string

definition httpResource_zero :: httpResource where
  "httpResource_zero = \<lparr>URL = [], LoadingMode = [], CrossOrigin = []\<rparr>"

text \<open>The body of the loop of \<open>parseHTTPResource\<close>, for one element of the split.\<close>

definition parseHTTPResource_elem :: "unicode_lib \<Rightarrow> httpResource \<Rightarrow> string \<Rightarrow> httpResource" where
  "parseHTTPResource_elem u res elem0 =
     (let elem = TrimSpace u elem0 in
      if elem = [] then res
      else
        let elem = ToLower u elem in
        if elem = ''crossorigin'' then res\<lparr>CrossOrigin := ''true''\<rparr>
        else if HasPrefix elem ''crossorigin='' then
          res\<lparr>CrossOrigin := TrimPrefix elem ''crossorigin=''\<rparr>
        else if elem = ''defer'' then res\<lparr>LoadingMode := ''defer''\<rparr>
        else if elem = ''async'' then res\<lparr>LoadingMode := ''async''\<rparr>
        else res\<lparr>URL := elem\<rparr>)"

definition parseHTTPResource :: "unicode_lib \<Rightarrow> string \<Rightarrow> httpResource" where
  "parseHTTPResource u v = foldl (parseHTTPResource_elem u) httpResource_zero (Split v CHR '' '')"

subsection \<open>The grammar in the words of the specification\<close>

text \<open>The tokens: the pieces between spaces, trimmed, the empty ones dropped,
  lowercased.\<close>

definition tokenize :: "unicode_lib \<Rightarrow> string list \<Rightarrow> string list" where
  "tokenize u es = map (ToLower u) (filter (\<lambda>t. t \<noteq> []) (map (TrimSpace u) es))"

definition tokens :: "unicode_lib \<Rightarrow> string \<Rightarrow> string list" where
  "tokens u v = tokenize u (Split v CHR '' '')"

definition isCrossOrigin :: "string \<Rightarrow> bool" where
  "isCrossOrigin t = (t = ''crossorigin'' \<or> HasPrefix t ''crossorigin='')"

definition isLoadingMode :: "string \<Rightarrow> bool" where
  "isLoadingMode t = (t = ''defer'' \<or> t = ''async'')"

definition isURLToken :: "string \<Rightarrow> bool" where
  "isURLToken t = (\<not> isCrossOrigin t \<and> \<not> isLoadingMode t)"

definition lastOr :: "'a \<Rightarrow> ('b \<Rightarrow> 'a) \<Rightarrow> 'b list \<Rightarrow> 'a" where
  "lastOr d f ts = (case ts of [] \<Rightarrow> d | _ # _ \<Rightarrow> f (last ts))"

definition crossOriginValue :: "string \<Rightarrow> string" where
  "crossOriginValue t = (if t = ''crossorigin'' then ''true'' else drop (length ''crossorigin='') t)"

definition describedResource :: "unicode_lib \<Rightarrow> string \<Rightarrow> httpResource" where
  "describedResource u v =
     \<lparr>URL = lastOr [] (\<lambda>t. t) (filter isURLToken (tokens u v)),
      LoadingMode = lastOr [] (\<lambda>t. t) (filter isLoadingMode (tokens u v)),
      CrossOrigin = lastOr [] crossOriginValue (filter isCrossOrigin (tokens u v))\<rparr>"

section \<open>Data model of the handler\<close>

record Icon =
  Default :: string
  Large :: string
  SVG :: string
  Maskable :: string

text \<open>Modelled from the spec: the declaration of \<open>ProxyResource\<close> is not among the
  sources; the handler reads the fields \<open>Path\<close> (the public path) and \<open>ResourcePath\<close>
  (the internal static-resource path).\<close>

record ProxyResource =
  Path :: string
  ResourcePath :: string

text \<open>Modelled from the spec: the declaration of \<open>cacheItem\<close> is not among the
  sources; a cache item is a path, a content type, an optional content encoding
  (empty when absent) and a byte payload, and \<open>Len\<close> is the size of the payload.\<close>

record cacheItem =
  item_Path :: string
  ContentType :: string
  ContentEncoding :: string
  item_Body :: string

definition Len :: "cacheItem \<Rightarrow> nat" where
  "Len i = length (item_Body i)"

text \<open>Modelled from the spec: \<open>memoryCache\<close> is not among the sources; it is a mapping
  from path to cache item, the capacity is a hint for the first allocation only, an
  entry is never evicted, \<open>Set\<close> is an upsert of one entry under the item's path.\<close>

type_synonym memoryCache = "string \<rightharpoonup> cacheItem"

definition newMemoryCache :: "nat \<Rightarrow> memoryCache" where
  "newMemoryCache capacity = Map.empty"

definition memoryCache_Set :: "memoryCache \<Rightarrow> cacheItem \<Rightarrow> memoryCache" where
  "memoryCache_Set c i = c(item_Path i \<mapsto> i)"

definition memoryCache_Get :: "memoryCache \<Rightarrow> string \<Rightarrow> cacheItem option" where
  "memoryCache_Get c path = c path"

text \<open>The request, as far as the handler reads it: \<open>r.URL.Path\<close>, the value of
  \<open>r.Header.Get("If-None-Match")\<close> (empty when the header is absent), \<open>r.Host\<close> and
  whether \<open>r.TLS\<close> is set.\<close>

record Request =
  URL_Path :: string
  If_None_Match :: string
  Host :: string
  TLS :: bool

text \<open>The response writer: the header map, the status once \<open>WriteHeader\<close> has been
  called, and the bytes written. As in \<open>net/http\<close>, a second \<open>WriteHeader\<close> changes
  nothing and a \<open>Write\<close> before any \<open>WriteHeader\<close> sends status 200 first.\<close>

record ResponseWriter =
  Header :: "string \<rightharpoonup> string"
  status :: "nat option"
  written :: string

definition Header_Set :: "ResponseWriter \<Rightarrow> string \<Rightarrow> string \<Rightarrow> ResponseWriter" where
  "Header_Set w k v = w\<lparr>Header := (Header w)(k \<mapsto> v)\<rparr>"

definition WriteHeader :: "ResponseWriter \<Rightarrow> nat \<Rightarrow> ResponseWriter" where
  "WriteHeader w code = (case status w of None \<Rightarrow> w\<lparr>status := Some code\<rparr> | Some _ \<Rightarrow> w)"

definition Write :: "ResponseWriter \<Rightarrow> string \<Rightarrow> ResponseWriter" where
  "Write w b = (let w' = WriteHeader w 200 in w'\<lparr>written := written w' @ b\<rparr>)"

text \<open>A resource resolver: \<open>Resolve\<close>, and the file handler when the resolver also
  implements \<open>http.Handler\<close> (the type assertion \<open>h.Resources.(http.Handler)\<close>).\<close>

record ResourceResolver =
  Resolve :: "string \<Rightarrow> string"
  asHandler :: "(ResponseWriter \<Rightarrow> Request \<Rightarrow> ResponseWriter) option"

text \<open>The functions a handler can hold in \<open>HTML\<close> and \<open>Body\<close>: the package's own
  \<open>Html\<close> and \<open>Body\<close>, or another one, known by a name.\<close>

datatype HTML_func = app_Html | other_Html string
datatype Body_func = app_Body | other_Body string

text \<open>A library is what its method \<open>Styles()\<close> returns: a path and the styles.\<close>

type_synonym Library = "string \<times> string"

text \<open>The handler, field by field; the field \<open>Domain\<close> is \<open>Domain_name\<close> here. A nil
  interface or pointer is \<open>None\<close>; a nil map reads like the empty map.\<close>

record Handler =
  Name :: string
  ShortName :: string
  Icon :: Icon
  BackgroundColor :: string
  ThemeColor :: string
  LoadingLabel :: string
  Lang :: string
  Libraries :: "Library list"
  Title :: string
  Description :: string
  Domain_name :: string
  Author :: string
  Keywords :: "string list"
  Image :: string
  Styles :: "string list"
  Fonts :: "string list"
  Scripts :: "string list"
  CacheableResources :: "string list"
  RawHeaders :: "string list"
  HTML :: "HTML_func option"
  Body :: "Body_func option"
  Env :: "(string \<rightharpoonup> string) option"
  InternalURLs :: "string list"
  Preconnect :: "string list"
  ProxyResources :: "ProxyResource list"
  Resources :: "ResourceResolver option"
  Version :: string
  WasmContentLength :: string
  WasmContentLengthHeader :: string
  ServiceWorkerTemplate :: string
  once :: bool
  etag :: string
  libraries :: "string \<rightharpoonup> string"
  proxyResources :: "string \<rightharpoonup> ProxyResource"
  cachedProxyResources :: "memoryCache option"
  cachedPWAResources :: "memoryCache option"

text \<open>What the handler changes outside itself: the environment of the process
  (\<open>os.Setenv\<close>), the log, and the URLs fetched with \<open>http.Get\<close>, in order.\<close>

record World =
  environ :: "string \<rightharpoonup> string"
  logs :: "string list"
  fetched :: "string list"

text \<open>The answer of \<open>http.Get\<close>: \<open>None\<close> is a transport error; otherwise the status
  code, two headers, and the body (\<open>None\<close> when reading it fails).\<close>

datatype http_Response =
  http_Response (StatusCode: nat) (res_ContentType: string) (res_ContentEncoding: string)
    (res_Body: "string option")

datatype panic = Panic string

text \<open>
  What the handler takes from outside its own source: the Unicode part of package
  \<open>strings\<close>; the hash of the current time; the resolver \<open>LocalDir("")\<close>; the bundled
  texts; the JSON encoders; \<open>text/template\<close> (parse and execute in one step, \<open>None\<close>
  when either fails); whether \<open>os.Setenv\<close> accepts a pair; \<open>http.Get\<close>, whose answer
  may depend on the fetches made before; the page renderer; and, for each of the
  three maps that \<open>init\<close> ranges over, the keys in the order in which the Go runtime
  walks that map.
\<close>

record Extern =
  ulib :: unicode_lib
  now_sha1 :: string
  LocalDir_empty :: ResourceResolver
  DefaultAppWorkerJS :: string
  appJS :: string
  manifestJSON :: string
  appCSS :: string
  wasmExecJS :: string
  json_Marshal :: "string list \<Rightarrow> string"
  jsonString_map :: "(string \<rightharpoonup> string) \<Rightarrow> string"
  jsonString_list :: "string list \<Rightarrow> string"
  template_Execute :: "string \<Rightarrow> string \<Rightarrow> (string \<times> string) list \<Rightarrow> string option"
  Setenv_ok :: "string \<Rightarrow> string \<Rightarrow> bool"
  http_Get :: "string list \<Rightarrow> string \<Rightarrow> http_Response option"
  servePage :: "Handler \<Rightarrow> ResponseWriter \<Rightarrow> Request \<Rightarrow> World \<Rightarrow> ResponseWriter \<times> World"
  range_libraries :: "(string \<rightharpoonup> string) \<Rightarrow> string list"
  range_Env :: "(string \<rightharpoonup> string) \<Rightarrow> string list"
  range_resources :: "string set \<Rightarrow> string list"

text \<open>A walk over a Go map visits every key once, in an order the runtime chooses.\<close>

definition rangeOrder :: "string set \<Rightarrow> string list \<Rightarrow> bool" where
  "rangeOrder keys ks = (distinct ks \<and> set ks = keys)"

section \<open>One-time initialization\<close>

definition defaultThemeColor :: string where
  "defaultThemeColor = ''#2d2c2c''"

definition initVersion :: "Extern \<Rightarrow> Handler \<Rightarrow> Handler" where
  "initVersion x h =
     (let h = (if Version h = [] then h\<lparr>Version := now_sha1 x\<rparr> else h)
      in h\<lparr>etag := [CHR 0x22] @ Version h @ [CHR 0x22]\<rparr>)"

definition initStaticResources :: "Extern \<Rightarrow> Handler \<Rightarrow> Handler" where
  "initStaticResources x h =
     (case Resources h of
        None \<Rightarrow> h\<lparr>Resources := Some (LocalDir_empty x)\<rparr>
      | Some _ \<Rightarrow> h)"

definition initLibraries_step :: "(string \<rightharpoonup> string) \<Rightarrow> Library \<Rightarrow> (string \<rightharpoonup> string)" where
  "initLibraries_step libs l =
     (case l of (path, styles) \<Rightarrow>
        if \<not> HasPrefix path ''/'' \<or> length styles = 0 then libs
        else libs(path \<mapsto> styles))"

definition initLibraries :: "Handler \<Rightarrow> Handler" where
  "initLibraries h = h\<lparr>libraries := foldl initLibraries_step Map.empty (Libraries h)\<rparr>"

definition initLinks :: "Extern \<Rightarrow> Handler \<Rightarrow> Handler" where
  "initLinks x h =
     (let styles = foldl (\<lambda>styles path. styles @ [path]) [''/app.css'']
                     (range_libraries x (libraries h))
      in h\<lparr>Styles := styles @ Styles h\<rparr>)"

definition initServiceWorker :: "Extern \<Rightarrow> Handler \<Rightarrow> Handler" where
  "initServiceWorker x h =
     (if ServiceWorkerTemplate h = [] then h\<lparr>ServiceWorkerTemplate := DefaultAppWorkerJS x\<rparr>
      else h)"

definition initIcon :: "Handler \<Rightarrow> Handler" where
  "initIcon h =
     (let h = (if Default (Icon h) = [] then
                 h\<lparr>Icon := (Icon h)
                   \<lparr>Default := ''https://raw.githubusercontent.com/maxence-charriere/go-app/master/docs/web/icon.png'',
                    Large := ''https://raw.githubusercontent.com/maxence-charriere/go-app/master/docs/web/icon.png''\<rparr>\<rparr>
               else h);
          h = (if Maskable (Icon h) = [] then h\<lparr>Icon := (Icon h)\<lparr>Maskable := Default (Icon h)\<rparr>\<rparr>
               else h);
          h = (if SVG (Icon h) = [] then
                 h\<lparr>Icon := (Icon h)
                   \<lparr>SVG := ''https://raw.githubusercontent.com/maxence-charriere/go-app/master/docs/web/icon.svg''\<rparr>\<rparr>
               else h)
      in h)"

definition initPWA :: "Handler \<Rightarrow> Handler" where
  "initPWA h =
     (let h = (if Name h = [] \<and> ShortName h = [] \<and> Title h = [] then h\<lparr>Name := ''App PWA''\<rparr>
               else h);
          h = (if ShortName h = [] then h\<lparr>ShortName := Name h\<rparr> else h);
          h = (if Name h = [] then h\<lparr>Name := ShortName h\<rparr> else h);
          h = (if BackgroundColor h = [] then h\<lparr>BackgroundColor := defaultThemeColor\<rparr> else h);
          h = (if ThemeColor h = [] then h\<lparr>ThemeColor := defaultThemeColor\<rparr> else h);
          h = (if Lang h = [] then h\<lparr>Lang := ''en''\<rparr> else h);
          h = (if LoadingLabel h = [] then h\<lparr>LoadingLabel := ''{progress}%''\<rparr> else h)
      in h)"

definition initPageContent :: "Handler \<Rightarrow> Handler" where
  "initPageContent h =
     (let h = (case HTML h of None \<Rightarrow> h\<lparr>HTML := Some app_Html\<rparr> | Some _ \<Rightarrow> h);
          h = (case Body h of None \<Rightarrow> h\<lparr>Body := Some app_Body\<rparr> | Some _ \<Rightarrow> h)
      in h)"

subsection \<open>The generated assets\<close>

definition Setenv :: "Extern \<Rightarrow> World \<Rightarrow> string \<Rightarrow> string \<Rightarrow> World" where
  "Setenv x wd k v =
     (if Setenv_ok x k v then wd\<lparr>environ := (environ wd)(k \<mapsto> v)\<rparr>
      else wd\<lparr>logs := logs wd @ [''setting app env variable failed'']\<rparr>)"

text \<open>\<open>makeAppJS\<close> returns the bytes and leaves the handler's \<open>Env\<close> and the
  environment of the process changed. A call of \<open>h.Resources.Resolve\<close> on a nil
  resolver, and a template that fails, are panics.\<close>

definition makeAppJS :: "Extern \<Rightarrow> Handler \<Rightarrow> World \<Rightarrow> panic + (string \<times> Handler \<times> World)" where
  "makeAppJS x h wd =
     (case Resources h of
        None \<Rightarrow> Inl (Panic ''nil pointer dereference'')
      | Some rs \<Rightarrow>
         let env0 = (case Env h of None \<Rightarrow> Map.empty | Some e \<Rightarrow> e);
             env1 = env0(''GOAPP_INTERNAL_URLS'' \<mapsto> json_Marshal x (InternalURLs h));
             env2 = env1(''GOAPP_VERSION'' \<mapsto> Version h);
             env3 = env2(''GOAPP_STATIC_RESOURCES_URL'' \<mapsto> Resolve rs ''/web'');
             env4 = env3(''GOAPP_ROOT_PREFIX'' \<mapsto> Resolve rs ''/'');
             wd' = foldl (\<lambda>wd k. case env4 k of None \<Rightarrow> wd | Some v \<Rightarrow> Setenv x wd k v)
                     wd (range_Env x env4)
         in case template_Execute x ''app.js'' (appJS x)
                   [(''Env'', jsonString_map x env4),
                    (''LoadingLabel'', LoadingLabel h),
                    (''Wasm'', Resolve rs ''/web/app.wasm''),
                    (''WasmContentLength'', WasmContentLength h),
                    (''WasmContentLengthHeader'', WasmContentLengthHeader h),
                    (''WorkerJS'', Resolve rs ''/app-worker.js'')] of
              None \<Rightarrow> Inl (Panic ''initializing app.js failed'')
            | Some b \<Rightarrow> Inr (b, h\<lparr>Env := Some env4\<rparr>, wd'))"

text \<open>The closure \<open>setResources\<close> of \<open>makeAppWorkerJS\<close>: the set \<open>resources\<close> gains
  the URL of every entry that has one.\<close>

definition setResources :: "unicode_lib \<Rightarrow> string set \<Rightarrow> string list \<Rightarrow> string set" where
  "setResources u resources res =
     foldl (\<lambda>resources r.
              let resource = parseHTTPResource u r in
              if URL resource \<noteq> [] then insert (URL resource) resources else resources)
       resources res"

definition workerResources :: "unicode_lib \<Rightarrow> Handler \<Rightarrow> string set" where
  "workerResources u h =
     (let resources = {};
          resources = setResources u resources
            [''/app.css'', ''/app.js'', ''/manifest.webmanifest'', ''/wasm_exec.js'', ''/'',
             ''/web/app.wasm''];
          resources = setResources u resources
            [Default (Icon h), Large (Icon h), Maskable (Icon h)];
          resources = setResources u resources (Styles h);
          resources = setResources u resources (Fonts h);
          resources = setResources u resources (Scripts h);
          resources = setResources u resources (CacheableResources h)
      in resources)"

text \<open>The list \<open>resourcesTocache\<close>: the keys \<open>ks\<close> in the order of the walk over the
  set, each resolved, then sorted by \<open>strings.Compare\<close>, which is the lexicographic
  order on bytes. \<open>sort.Slice\<close> is not stable; for strings two equal elements are the
  same string, so any sorting algorithm returns the same list.\<close>

definition resourcesTocache :: "ResourceResolver \<Rightarrow> string list \<Rightarrow> string list" where
  "resourcesTocache rs ks = sort (foldl (\<lambda>acc k. acc @ [Resolve rs k]) [] ks)"

text \<open>The set of resources holds the six core assets, so the loop over it calls
  \<open>Resolve\<close> at least once: a nil resolver is a panic.\<close>

definition makeAppWorkerJS :: "Extern \<Rightarrow> Handler \<Rightarrow> panic + string" where
  "makeAppWorkerJS x h =
     (let resources = workerResources (ulib x) h in
      case Resources h of
        None \<Rightarrow> Inl (Panic ''nil pointer dereference'')
      | Some rs \<Rightarrow>
         (case template_Execute x ''app-worker.js'' (ServiceWorkerTemplate h)
                 [(''Version'', Version h),
                  (''ResourcesToCache'',
                   jsonString_list x (resourcesTocache rs (range_resources x resources)))] of
            None \<Rightarrow> Inl (Panic ''initializing app-worker.js failed'')
          | Some b \<Rightarrow> Inr b))"

text \<open>The service worker in the words of the specification, with no walk in it:
  every member of the set of resources once, each resolved through the resolver, the
  results sorted; the template gets the version and the JSON of that list.\<close>

definition sortedAssets :: "ResourceResolver \<Rightarrow> string set \<Rightarrow> string list" where
  "sortedAssets rs resources = sorted_list_of_multiset (image_mset (Resolve rs) (mset_set resources))"

definition describedWorkerJS :: "Extern \<Rightarrow> Handler \<Rightarrow> panic + string" where
  "describedWorkerJS x h =
     (case Resources h of
        None \<Rightarrow> Inl (Panic ''nil pointer dereference'')
      | Some rs \<Rightarrow>
         (case template_Execute x ''app-worker.js'' (ServiceWorkerTemplate h)
                 [(''Version'', Version h),
                  (''ResourcesToCache'',
                   jsonString_list x (sortedAssets rs (workerResources (ulib x) h)))] of
            None \<Rightarrow> Inl (Panic ''initializing app-worker.js failed'')
          | Some b \<Rightarrow> Inr b))"

definition makeManifestJSON :: "Extern \<Rightarrow> Handler \<Rightarrow> panic + string" where
  "makeManifestJSON x h =
     (case Resources h of
        None \<Rightarrow> Inl (Panic ''nil pointer dereference'')
      | Some rs \<Rightarrow>
         let scope = Resolve rs ''/'';
             scope = (if scope \<noteq> ''/'' \<and> \<not> HasSuffix scope ''/'' then scope @ ''/'' else scope)
         in case template_Execute x ''manifest.webmanifest'' (manifestJSON x)
                   [(''ShortName'', ShortName h),
                    (''Name'', Name h),
                    (''Description'', Description h),
                    (''DefaultIcon'', Resolve rs (Default (Icon h))),
                    (''LargeIcon'', Resolve rs (Large (Icon h))),
                    (''SVGIcon'', Resolve rs (SVG (Icon h))),
                    (''MaskableIcon'', Resolve rs (Maskable (Icon h))),
                    (''BackgroundColor'', BackgroundColor h),
                    (''ThemeColor'', ThemeColor h),
                    (''Scope'', scope),
                    (''StartURL'', Resolve rs ''/'')] of
              None \<Rightarrow> Inl (Panic ''initializing manifest.webmanifest failed'')
            | Some b \<Rightarrow> Inr b)"

definition initPWAResources :: "Extern \<Rightarrow> Handler \<Rightarrow> World \<Rightarrow> panic + (Handler \<times> World)" where
  "initPWAResources x h wd =
     (let c = newMemoryCache 5;
          c = memoryCache_Set c
                \<lparr>item_Path = ''/wasm_exec.js'', ContentType = ''application/javascript'',
                 ContentEncoding = [], item_Body = wasmExecJS x\<rparr>;
          h = h\<lparr>cachedPWAResources := Some c\<rparr>
      in case makeAppJS x h wd of
           Inl p \<Rightarrow> Inl p
         | Inr (appjs, h, wd) \<Rightarrow>
            let c = memoryCache_Set c
                      \<lparr>item_Path = ''/app.js'', ContentType = ''application/javascript'',
                       ContentEncoding = [], item_Body = appjs\<rparr>;
                h = h\<lparr>cachedPWAResources := Some c\<rparr>
            in case makeAppWorkerJS x h of
                 Inl p \<Rightarrow> Inl p
               | Inr worker \<Rightarrow>
                  let c = memoryCache_Set c
                            \<lparr>item_Path = ''/app-worker.js'', ContentType = ''application/javascript'',
                             ContentEncoding = [], item_Body = worker\<rparr>;
                      h = h\<lparr>cachedPWAResources := Some c\<rparr>
                  in case makeManifestJSON x h of
                       Inl p \<Rightarrow> Inl p
                     | Inr manifest \<Rightarrow>
                        let c = memoryCache_Set c
                                  \<lparr>item_Path = ''/manifest.webmanifest'',
                                   ContentType = ''application/manifest+json'',
                                   ContentEncoding = [], item_Body = manifest\<rparr>;
                            c = memoryCache_Set c
                                  \<lparr>item_Path = ''/app.css'', ContentType = ''text/css'',
                                   ContentEncoding = [], item_Body = appCSS x\<rparr>
                        in Inr (h\<lparr>cachedPWAResources := Some c\<rparr>, wd))"

subsection \<open>The proxy-resource table\<close>

text \<open>The paths of the first \<open>case\<close> of the \<open>switch\<close> in \<open>initProxyResources\<close>.\<close>

definition reservedPaths :: "string list" where
  "reservedPaths =
     [''/wasm_exec.js'', ''/goapp.js'', ''/app.js'', ''/app-worker.js'', ''/manifest.json'',
      ''/manifest.webmanifest'', ''/app.css'', ''/app.wasm'', ''/goapp.wasm'', ''/'']"

definition initProxyResources_step ::
  "(string \<rightharpoonup> ProxyResource) \<Rightarrow> ProxyResource \<Rightarrow> (string \<rightharpoonup> ProxyResource)" where
  "initProxyResources_step resources r =
     (if Path r \<in> set reservedPaths then resources
      else if HasPrefix (Path r) ''/'' \<and> HasPrefix (ResourcePath r) ''/web/'' then
        resources(Path r \<mapsto> r)
      else resources)"

definition injectDefault ::
  "(string \<rightharpoonup> ProxyResource) \<Rightarrow> string \<Rightarrow> string \<Rightarrow> (string \<rightharpoonup> ProxyResource)" where
  "injectDefault resources path resourcePath =
     (case resources path of
        None \<Rightarrow> resources(path \<mapsto> \<lparr>Path = path, ResourcePath = resourcePath\<rparr>)
      | Some _ \<Rightarrow> resources)"

text \<open>The table after the loop over the configured resources, before the defaults.\<close>

definition configuredTable :: "ProxyResource list \<Rightarrow> (string \<rightharpoonup> ProxyResource)" where
  "configuredTable prs = foldl initProxyResources_step Map.empty prs"

definition proxyTable :: "ProxyResource list \<Rightarrow> (string \<rightharpoonup> ProxyResource)" where
  "proxyTable prs =
     (let resources = configuredTable prs;
          resources = injectDefault resources ''/robots.txt'' ''/web/robots.txt'';
          resources = injectDefault resources ''/sitemap.xml'' ''/web/sitemap.xml'';
          resources = injectDefault resources ''/ads.txt'' ''/web/ads.txt''
      in resources)"

definition initProxyResources :: "Handler \<Rightarrow> Handler" where
  "initProxyResources h =
     h\<lparr>cachedProxyResources := Some (newMemoryCache (length (ProxyResources h))),
       proxyResources := proxyTable (ProxyResources h)\<rparr>"

subsection \<open>The whole sequence\<close>

definition init :: "Extern \<Rightarrow> Handler \<Rightarrow> World \<Rightarrow> panic + (Handler \<times> World)" where
  "init x h wd =
     (let h = initVersion x h;
          h = initStaticResources x h;
          h = initLibraries h;
          h = initLinks x h;
          h = initServiceWorker x h;
          h = initIcon h;
          h = initPWA h;
          h = initPageContent h
      in case initPWAResources x h wd of
           Inl p \<Rightarrow> Inl p
         | Inr (h, wd) \<Rightarrow> Inr (initProxyResources h, wd))"

text \<open>\<open>h.once.Do(h.init)\<close>, for requests that arrive one after the other: \<open>init\<close> runs
  when it has not run before. A panic of \<open>init\<close> ends the request.\<close>

definition once_Do_init :: "Extern \<Rightarrow> Handler \<Rightarrow> World \<Rightarrow> panic + (Handler \<times> World)" where
  "once_Do_init x h wd =
     (if once h then Inr (h, wd)
      else (case init x h wd of
              Inl p \<Rightarrow> Inl p
            | Inr (h, wd) \<Rightarrow> Inr (h\<lparr>once := True\<rparr>, wd)))"

section \<open>Serving requests\<close>

text \<open>\<open>strconv.Itoa\<close> on a length.\<close>

fun Itoa :: "nat \<Rightarrow> string" where
  "Itoa n =
     (if n < 10 then [char_of (48 + n)]
      else Itoa (n div 10) @ [char_of (48 + n mod 10)])"

definition serveCachedItem :: "ResponseWriter \<Rightarrow> cacheItem \<Rightarrow> ResponseWriter" where
  "serveCachedItem w i =
     (let w = Header_Set w ''Content-Length'' (Itoa (Len i));
          w = Header_Set w ''Content-Type'' (ContentType i);
          w = (if ContentEncoding i \<noteq> [] then Header_Set w ''Content-Encoding'' (ContentEncoding i)
               else w);
          w = WriteHeader w 200
      in Write w (item_Body i))"

definition serveLibrary :: "ResponseWriter \<Rightarrow> Request \<Rightarrow> string \<Rightarrow> ResponseWriter" where
  "serveLibrary w r library =
     (let w = Header_Set w ''Content-Length'' (Itoa (length library));
          w = Header_Set w ''Content-Type'' ''text/css''
      in Write w library)"

definition Log :: "World \<Rightarrow> string \<Rightarrow> World" where
  "Log wd msg = wd\<lparr>logs := logs wd @ [msg]\<rparr>"

text \<open>Lines 541 to 552 of \<open>serveProxyResource\<close>: the URL to fetch.\<close>

definition proxyURL :: "ResourceResolver \<Rightarrow> ProxyResource \<Rightarrow> Request \<Rightarrow> string" where
  "proxyURL rs resource r =
     (case asHandler rs of
        Some _ \<Rightarrow>
          (let protocol = (if TLS r then ''https://'' else ''http://'')
           in protocol @ Host r @ ResourcePath resource)
      | None \<Rightarrow> Resolve rs (ResourcePath resource))"

text \<open>\<open>serveProxyResource\<close>. The URL \<open>u\<close> is computed first; with a nil resolver the
  type assertion fails and the call of \<open>Resolve\<close> panics, and so does \<open>Get\<close> on a nil
  cache. Every \<open>http.Get\<close> is recorded in the world.\<close>

definition serveProxyResource ::
  "Extern \<Rightarrow> Handler \<Rightarrow> ProxyResource \<Rightarrow> ResponseWriter \<Rightarrow> Request \<Rightarrow> World
     \<Rightarrow> panic + (Handler \<times> ResponseWriter \<times> World)" where
  "serveProxyResource x h resource w r wd =
     (case Resources h of
        None \<Rightarrow> Inl (Panic ''nil pointer dereference'')
      | Some rs \<Rightarrow>
         let u = proxyURL rs resource r
         in case cachedProxyResources h of
              None \<Rightarrow> Inl (Panic ''nil pointer dereference'')
            | Some c \<Rightarrow>
               (case memoryCache_Get c (Path resource) of
                  Some i \<Rightarrow> Inr (h, serveCachedItem w i, wd)
                | None \<Rightarrow>
                   let res = http_Get x (fetched wd) u;
                       wd = wd\<lparr>fetched := fetched wd @ [u]\<rparr>
                   in case res of
                        None \<Rightarrow>
                          Inr (h, WriteHeader w 500,
                               Log wd ''getting proxy static resource failed'')
                      | Some res \<Rightarrow>
                          if StatusCode res \<noteq> 200 then Inr (h, WriteHeader w 404, wd)
                          else
                            (case res_Body res of
                               None \<Rightarrow>
                                 Inr (h, WriteHeader w 500,
                                      Log wd ''reading proxy static resource failed'')
                             | Some body \<Rightarrow>
                                 let item = \<lparr>item_Path = Path resource,
                                             ContentType = res_ContentType res,
                                             ContentEncoding = res_ContentEncoding res,
                                             item_Body = body\<rparr>
                                 in Inr (h\<lparr>cachedProxyResources := Some (memoryCache_Set c item)\<rparr>,
                                         serveCachedItem w item, wd))))"

text \<open>Lines 480 to 483 of \<open>ServeHTTP\<close>: the path with the version prefix removed.\<close>

definition versionedPath :: "Handler \<Rightarrow> string \<Rightarrow> string" where
  "versionedPath h path =
     (if HasPrefix path (''/'' @ Version h @ ''/'') then TrimPrefix path (''/'' @ Version h)
      else path)"

text \<open>The type assertion \<open>h.Resources.(http.Handler)\<close>: the resolver together with
  its file handler when it has one; a nil resolver has none.\<close>

definition staticFileHandler ::
  "Handler \<Rightarrow> (ResourceResolver \<times> (ResponseWriter \<Rightarrow> Request \<Rightarrow> ResponseWriter)) option" where
  "staticFileHandler h =
     (case Resources h of
        None \<Rightarrow> None
      | Some rs \<Rightarrow> (case asHandler rs of None \<Rightarrow> None | Some fh \<Rightarrow> Some (rs, fh)))"

text \<open>The rest of \<open>ServeHTTP\<close>, from the type assertion on the resolver onwards, for
  the path computed before.\<close>

definition dispatch ::
  "Extern \<Rightarrow> Handler \<Rightarrow> ResponseWriter \<Rightarrow> Request \<Rightarrow> World \<Rightarrow> string
     \<Rightarrow> panic + (Handler \<times> ResponseWriter \<times> World)" where
  "dispatch x h w r wd path =
     (let fileHandler = staticFileHandler h in
      case (if HasPrefix path ''/web/'' then fileHandler else None) of
        Some (rs, fh) \<Rightarrow> Inr (h, fh w r, wd)
      | None \<Rightarrow>
         if path = ''/app.wasm'' \<or> path = ''/goapp.wasm'' then
           (case fileHandler of
              Some (rs, fh) \<Rightarrow> Inr (h, fh w (r\<lparr>URL_Path := Resolve rs ''/web/app.wasm''\<rparr>), wd)
            | None \<Rightarrow> Inr (h, WriteHeader w 404, wd))
         else
           let path = (if path = ''/goapp.js'' then ''/app.js''
                       else if path = ''/manifest.json'' then ''/manifest.webmanifest''
                       else path)
           in case cachedPWAResources h of
                None \<Rightarrow> Inl (Panic ''nil pointer dereference'')
              | Some c \<Rightarrow>
                 (case memoryCache_Get c path of
                    Some res \<Rightarrow> Inr (h, serveCachedItem w res, wd)
                  | None \<Rightarrow>
                     (case proxyResources h path of
                        Some proxyResource \<Rightarrow> serveProxyResource x h proxyResource w r wd
                      | None \<Rightarrow>
                         (case libraries h path of
                            Some library \<Rightarrow> Inr (h, serveLibrary w r library, wd)
                          | None \<Rightarrow>
                             (case servePage x h w r wd of (w, wd) \<Rightarrow> Inr (h, w, wd))))))"

definition ServeHTTP ::
  "Extern \<Rightarrow> Handler \<Rightarrow> ResponseWriter \<Rightarrow> Request \<Rightarrow> World
     \<Rightarrow> panic + (Handler \<times> ResponseWriter \<times> World)" where
  "ServeHTTP x h w r wd =
     (case once_Do_init x h wd of
        Inl p \<Rightarrow> Inl p
      | Inr (h, wd) \<Rightarrow>
         let w = Header_Set w ''Cache-Control'' ''no-cache'';
             w = Header_Set w ''ETag'' (etag h);
             etag' = If_None_Match r
         in if etag' = etag h then Inr (h, WriteHeader w 304, wd)
            else dispatch x h w r wd (versionedPath h (URL_Path r)))"

section \<open>Observations and sample inputs\<close>

definition response_status :: "panic + (Handler \<times> ResponseWriter \<times> World) \<Rightarrow> nat option" where
  "response_status res = (case res of Inl _ \<Rightarrow> None | Inr (h, w, wd) \<Rightarrow> status w)"

definition response_body :: "panic + (Handler \<times> ResponseWriter \<times> World) \<Rightarrow> string" where
  "response_body res = (case res of Inl _ \<Rightarrow> [] | Inr (h, w, wd) \<Rightarrow> written w)"

definition response_header ::
  "panic + (Handler \<times> ResponseWriter \<times> World) \<Rightarrow> string \<Rightarrow> string option" where
  "response_header res k = (case res of Inl _ \<Rightarrow> None | Inr (h, w, wd) \<Rightarrow> Header w k)"

definition fetches :: "panic + (Handler \<times> ResponseWriter \<times> World) \<Rightarrow> string list" where
  "fetches res = (case res of Inl _ \<Rightarrow> [] | Inr (h, w, wd) \<Rightarrow> fetched wd)"

text \<open>The next request, to the handler and in the world that a request has left.\<close>

definition nextRequest ::
  "Extern \<Rightarrow> panic + (Handler \<times> ResponseWriter \<times> World) \<Rightarrow> ResponseWriter \<Rightarrow> Request
     \<Rightarrow> panic + (Handler \<times> ResponseWriter \<times> World)" where
  "nextRequest x res w r =
     (case res of Inl p \<Rightarrow> Inl p | Inr (h, _, wd) \<Rightarrow> ServeHTTP x h w r wd)"

text \<open>The zero value \<open>Handler{}\<close>, a response writer nothing was written to, and a
  world in which nothing has happened.\<close>

definition zeroIcon :: Icon where
  "zeroIcon = \<lparr>Default = [], Large = [], SVG = [], Maskable = []\<rparr>"

definition zeroHandler :: Handler where
  "zeroHandler =
     \<lparr>Name = [], ShortName = [], Icon = zeroIcon, BackgroundColor = [], ThemeColor = [],
      LoadingLabel = [], Lang = [], Libraries = [], Title = [], Description = [],
      Domain_name = [], Author = [], Keywords = [], Image = [], Styles = [], Fonts = [],
      Scripts = [], CacheableResources = [], RawHeaders = [], HTML = None, Body = None,
      Env = None, InternalURLs = [], Preconnect = [], ProxyResources = [], Resources = None,
      Version = [], WasmContentLength = [], WasmContentLengthHeader = [],
      ServiceWorkerTemplate = [], once = False, etag = [], libraries = Map.empty,
      proxyResources = Map.empty, cachedProxyResources = None, cachedPWAResources = None\<rparr>"

definition newWriter :: ResponseWriter where
  "newWriter = \<lparr>Header = Map.empty, status = None, written = []\<rparr>"

definition newWorld :: World where
  "newWorld = \<lparr>environ = Map.empty, logs = [], fetched = []\<rparr>"

definition getRequest :: "string \<Rightarrow> string \<Rightarrow> Request" where
  "getRequest path ifNoneMatch =
     \<lparr>URL_Path = path, If_None_Match = ifNoneMatch, Host = ''app.test'', TLS = False\<rparr>"

text \<open>A resolver that prefixes a remote origin and serves no files, and surroundings
  for running the handler on sample inputs: the upstream gives the same answer to
  every fetch, a template renders as its text followed by its data, the maps are
  walked through a fixed list of candidate keys.\<close>

definition remoteResolver :: ResourceResolver where
  "remoteResolver = \<lparr>Resolve = (\<lambda>p. ''https://cdn.test'' @ p), asHandler = None\<rparr>"

definition sampleExtern :: "http_Response option \<Rightarrow> string list \<Rightarrow> Extern" where
  "sampleExtern upstream candidates =
     \<lparr>ulib = \<lparr>unicode_TrimSpace = (\<lambda>s. s), unicode_ToLower = (\<lambda>s. s)\<rparr>,
      now_sha1 = ''da39a3ee5e6b4b0d3255bfef95601890afd80709'',
      LocalDir_empty = \<lparr>Resolve = (\<lambda>p. p), asHandler = Some (\<lambda>w r. Write w (URL_Path r))\<rparr>,
      DefaultAppWorkerJS = ''worker '',
      appJS = ''app '',
      manifestJSON = ''manifest '',
      appCSS = ''css'',
      wasmExecJS = ''wasm_exec'',
      json_Marshal = concat,
      jsonString_map = (\<lambda>m. concat (map (\<lambda>k. case m k of None \<Rightarrow> [] | Some v \<Rightarrow> k @ ''='' @ v @ '';'')
                                      candidates)),
      jsonString_list = (\<lambda>xs. concat (map (\<lambda>s. s @ '','') xs)),
      template_Execute = (\<lambda>name text data. Some (text @ concat (map snd data))),
      Setenv_ok = (\<lambda>k v. True),
      http_Get = (\<lambda>history u. upstream),
      servePage = (\<lambda>h w r wd. (Write w ''page'', wd)),
      range_libraries = (\<lambda>m. filter (\<lambda>k. m k \<noteq> None) candidates),
      range_Env = (\<lambda>m. filter (\<lambda>k. m k \<noteq> None) candidates),
      range_resources = (\<lambda>S. filter (\<lambda>k. k \<in> S) candidates)\<rparr>"

text \<open>A handler with a version, a remote resolver and one style of its own; the keys
  the sample surroundings walk through; an upstream that is down and one that
  answers; the entry the handler proxies by default.\<close>

definition sampleHandler :: Handler where
  "sampleHandler =
     zeroHandler\<lparr>Version := ''v2'', Resources := Some remoteResolver,
                 Styles := [''/b.css crossorigin'']\<rparr>"

definition sampleKeys :: "string list" where
  "sampleKeys =
     [''/'', ''/app.css'', ''/app.js'', ''/manifest.webmanifest'', ''/wasm_exec.js'',
      ''/web/app.wasm'', ''/b.css'',
      ''https://raw.githubusercontent.com/maxence-charriere/go-app/master/docs/web/icon.png'',
      ''GOAPP_INTERNAL_URLS'', ''GOAPP_VERSION'', ''GOAPP_STATIC_RESOURCES_URL'',
      ''GOAPP_ROOT_PREFIX'']"

definition upstream503 :: "http_Response option" where
  "upstream503 = Some (http_Response 503 ''text/plain'' [] (Some ''unavailable''))"

definition upstream200 :: "http_Response option" where
  "upstream200 = Some (http_Response 200 ''text/plain'' ''gzip'' (Some ''User-agent: *''))"

definition robots :: ProxyResource where
  "robots = \<lparr>Path = ''/robots.txt'', ResourcePath = ''/web/robots.txt''\<rparr>"

definition feed :: ProxyResource where
  "feed = \<lparr>Path = ''/feed.xml'', ResourcePath = ''/web/feed.xml''\<rparr>"

definition quoted :: "string \<Rightarrow> string" where
  "quoted s = CHR 0x22 # s @ [CHR 0x22]"

text \<open>The sample keys walked backwards.\<close>

definition reverseWalk :: "string set \<Rightarrow> string list" where
  "reverseWalk S = filter (\<lambda>k. k \<in> S) (rev sampleKeys)"

section \<open>Lemmas\<close>

subsection \<open>The response writer\<close>

lemma status_Header_Set: "status (Header_Set w k v) = status w"
  by (simp add: Header_Set_def)

lemma written_Header_Set: "written (Header_Set w k v) = written w"
  by (simp add: Header_Set_def)

lemma WriteHeader_fresh: "status w = None \<Longrightarrow> WriteHeader w code = w\<lparr>status := Some code\<rparr>"
  by (simp add: WriteHeader_def)

lemma serveCachedItem_fresh:
  "status w = None \<Longrightarrow>
   status (serveCachedItem w i) = Some 200 \<and> written (serveCachedItem w i) = written w @ item_Body i"
  by (simp add: serveCachedItem_def Let_def Write_def WriteHeader_def Header_Set_def)

subsection \<open>Parsing\<close>

lemma lastOr_Nil: "lastOr d f [] = d"
  by (simp add: lastOr_def)

lemma lastOr_Cons: "lastOr d f (t # ts) = lastOr (f t) f ts"
  by (cases ts) (simp_all add: lastOr_def)

lemma tokenize_Cons:
  "tokenize u (e # es) =
     (if TrimSpace u e = [] then tokenize u es else ToLower u (TrimSpace u e) # tokenize u es)"
  by (simp add: tokenize_def)

lemma isCrossOrigin_not_isLoadingMode: "isCrossOrigin t \<Longrightarrow> \<not> isLoadingMode t"
  by (auto simp: isCrossOrigin_def isLoadingMode_def HasPrefix_def)

text \<open>What one round of the loop does with a token that is not empty.\<close>

lemma parseHTTPResource_elem_token:
  "TrimSpace u e \<noteq> [] \<Longrightarrow> t = ToLower u (TrimSpace u e) \<Longrightarrow>
   parseHTTPResource_elem u res e =
     (if isCrossOrigin t then res\<lparr>CrossOrigin := crossOriginValue t\<rparr>
      else if isLoadingMode t then res\<lparr>LoadingMode := t\<rparr>
      else res\<lparr>URL := t\<rparr>)"
  by (auto simp: parseHTTPResource_elem_def Let_def isLoadingMode_def
        isCrossOrigin_def crossOriginValue_def TrimPrefix_def HasPrefix_def)

text \<open>The loop, started from any descriptor: each field keeps the value of the
  last token of its kind, or the value it started with.\<close>

lemma foldl_parseHTTPResource_elem:
  "foldl (parseHTTPResource_elem u) res es =
     \<lparr>URL = lastOr (URL res) (\<lambda>t. t) (filter isURLToken (tokenize u es)),
      LoadingMode = lastOr (LoadingMode res) (\<lambda>t. t) (filter isLoadingMode (tokenize u es)),
      CrossOrigin = lastOr (CrossOrigin res) crossOriginValue (filter isCrossOrigin (tokenize u es))\<rparr>"
proof (induction es arbitrary: res)
  case Nil
  show ?case by (simp add: tokenize_def lastOr_Nil)
next
  case (Cons e es)
  show ?case
  proof (cases "TrimSpace u e = []")
    case True
    then show ?thesis
      unfolding foldl_Cons Cons.IH tokenize_Cons
      by (simp add: parseHTTPResource_elem_def)
  next
    case False
    then show ?thesis
      unfolding foldl_Cons Cons.IH tokenize_Cons
      using isCrossOrigin_not_isLoadingMode[of "ToLower u (TrimSpace u e)"]
      by (simp add: parseHTTPResource_elem_token[OF False refl] lastOr_Cons
          isURLToken_def[of "ToLower u (TrimSpace u e)"])
  qed
qed

subsection \<open>What \<open>init\<close> keeps and what it sets\<close>

lemma fields_initVersion:
  "Icon (initVersion x h) = Icon h"
  "ProxyResources (initVersion x h) = ProxyResources h"
  by (simp_all add: initVersion_def Let_def)

lemma etag_initVersion: "etag (initVersion x h) = quoted (Version (initVersion x h))"
  by (simp add: initVersion_def Let_def quoted_def)

lemma fields_initStaticResources:
  "Icon (initStaticResources x h) = Icon h"
  "ProxyResources (initStaticResources x h) = ProxyResources h"
  "Version (initStaticResources x h) = Version h"
  "etag (initStaticResources x h) = etag h"
  by (simp_all add: initStaticResources_def split: option.splits)

lemma fields_initLibraries:
  "Icon (initLibraries h) = Icon h"
  "ProxyResources (initLibraries h) = ProxyResources h"
  "Resources (initLibraries h) = Resources h"
  "Version (initLibraries h) = Version h"
  "etag (initLibraries h) = etag h"
  by (simp_all add: initLibraries_def)

lemma fields_initLinks:
  "Icon (initLinks x h) = Icon h"
  "ProxyResources (initLinks x h) = ProxyResources h"
  "Resources (initLinks x h) = Resources h"
  "Version (initLinks x h) = Version h"
  "etag (initLinks x h) = etag h"
  by (simp_all add: initLinks_def Let_def)

lemma fields_initServiceWorker:
  "Icon (initServiceWorker x h) = Icon h"
  "ProxyResources (initServiceWorker x h) = ProxyResources h"
  "Resources (initServiceWorker x h) = Resources h"
  "Version (initServiceWorker x h) = Version h"
  "etag (initServiceWorker x h) = etag h"
  by (simp_all add: initServiceWorker_def)

lemma fields_initIcon:
  "ProxyResources (initIcon h) = ProxyResources h"
  "Resources (initIcon h) = Resources h"
  "Version (initIcon h) = Version h"
  "etag (initIcon h) = etag h"
  by (simp_all add: initIcon_def Let_def)

lemma fields_initPWA:
  "Icon (initPWA h) = Icon h"
  "ProxyResources (initPWA h) = ProxyResources h"
  "Resources (initPWA h) = Resources h"
  "Version (initPWA h) = Version h"
  "etag (initPWA h) = etag h"
  by (simp_all add: initPWA_def Let_def)

lemma fields_initPageContent:
  "Icon (initPageContent h) = Icon h"
  "ProxyResources (initPageContent h) = ProxyResources h"
  "Resources (initPageContent h) = Resources h"
  "Version (initPageContent h) = Version h"
  "etag (initPageContent h) = etag h"
  by (simp_all add: initPageContent_def Let_def split: option.splits)

lemma fields_initProxyResources:
  "Icon (initProxyResources h) = Icon h"
  "Version (initProxyResources h) = Version h"
  "etag (initProxyResources h) = etag h"
  by (simp_all add: initProxyResources_def)

lemma Resources_initStaticResources: "Resources (initStaticResources x h) \<noteq> None"
  by (simp add: initStaticResources_def split: option.splits)

lemma fields_makeAppJS:
  "makeAppJS x h wd = Inr (b, h', wd') \<Longrightarrow>
   Icon h' = Icon h \<and> Version h' = Version h \<and> etag h' = etag h \<and>
   ProxyResources h' = ProxyResources h"
  by (auto simp: makeAppJS_def Let_def split: option.splits)

lemma fields_initPWAResources:
  "initPWAResources x h wd = Inr (h', wd') \<Longrightarrow>
   Icon h' = Icon h \<and> Version h' = Version h \<and> etag h' = etag h \<and>
   ProxyResources h' = ProxyResources h"
  by (auto simp: initPWAResources_def Let_def dest!: fields_makeAppJS split: sum.splits)

text \<open>A run of \<open>init\<close> that returns has gone through every step.\<close>

lemma init_Inr:
  "init x h wd = Inr (h', wd') \<Longrightarrow>
   \<exists>h9. initPWAResources x
          (initPageContent (initPWA (initIcon (initServiceWorker x (initLinks x
             (initLibraries (initStaticResources x (initVersion x h)))))))) wd = Inr (h9, wd')
        \<and> h' = initProxyResources h9"
  by (auto simp: init_def Let_def split: sum.splits)

lemma Icon_init:
  "init x h wd = Inr (h', wd') \<Longrightarrow> \<exists>g. Icon g = Icon h \<and> Icon h' = Icon (initIcon g)"
proof -
  let ?g = "initServiceWorker x (initLinks x
             (initLibraries (initStaticResources x (initVersion x h))))"
  assume "init x h wd = Inr (h', wd')"
  then obtain h9 where
    a: "initPWAResources x (initPageContent (initPWA (initIcon ?g))) wd = Inr (h9, wd')"
    and b: "h' = initProxyResources h9"
    using init_Inr by blast
  have "Icon ?g = Icon h"
    by (simp only: fields_initServiceWorker fields_initLinks fields_initLibraries
        fields_initStaticResources fields_initVersion)
  moreover from fields_initPWAResources[OF a] b have "Icon h' = Icon (initIcon ?g)"
    by (simp only: fields_initProxyResources fields_initPageContent fields_initPWA)
  ultimately show ?thesis by blast
qed

lemma Icon_initIcon_zero:
  "Icon h = \<lparr>Default = [], Large = [], SVG = [], Maskable = []\<rparr> \<Longrightarrow>
   Icon (initIcon h) =
     \<lparr>Default = ''https://raw.githubusercontent.com/maxence-charriere/go-app/master/docs/web/icon.png'',
      Large = ''https://raw.githubusercontent.com/maxence-charriere/go-app/master/docs/web/icon.png'',
      SVG = ''https://raw.githubusercontent.com/maxence-charriere/go-app/master/docs/web/icon.svg'',
      Maskable = ''https://raw.githubusercontent.com/maxence-charriere/go-app/master/docs/web/icon.png''\<rparr>"
  by (simp add: initIcon_def Let_def)

text \<open>After \<open>init\<close> the ETag is the version between double quotes.\<close>

lemma etag_init: "init x h wd = Inr (h', wd') \<Longrightarrow> etag h' = quoted (Version h')"
proof -
  let ?g = "initPageContent (initPWA (initIcon (initServiceWorker x (initLinks x
             (initLibraries (initStaticResources x (initVersion x h)))))))"
  assume "init x h wd = Inr (h', wd')"
  then obtain h9 where
    a: "initPWAResources x ?g wd = Inr (h9, wd')" and b: "h' = initProxyResources h9"
    using init_Inr by blast
  have "etag ?g = quoted (Version ?g)"
    by (simp only: fields_initPageContent fields_initPWA fields_initIcon fields_initServiceWorker
        fields_initLinks fields_initLibraries fields_initStaticResources etag_initVersion)
  with fields_initPWAResources[OF a] b show ?thesis
    by (simp only: fields_initProxyResources)
qed

text \<open>The table that \<open>init\<close> leaves is the one built from the configured list.\<close>

lemma proxyResources_init:
  "init x h wd = Inr (h', wd') \<Longrightarrow> proxyResources h' = proxyTable (ProxyResources h)"
proof -
  let ?g = "initPageContent (initPWA (initIcon (initServiceWorker x (initLinks x
             (initLibraries (initStaticResources x (initVersion x h)))))))"
  assume "init x h wd = Inr (h', wd')"
  then obtain h9 where
    a: "initPWAResources x ?g wd = Inr (h9, wd')" and b: "h' = initProxyResources h9"
    using init_Inr by blast
  have "ProxyResources ?g = ProxyResources h"
    by (simp only: fields_initPageContent fields_initPWA fields_initIcon fields_initServiceWorker
        fields_initLinks fields_initLibraries fields_initStaticResources fields_initVersion)
  with fields_initPWAResources[OF a] b show ?thesis
    by (simp add: initProxyResources_def)
qed

text \<open>The cache of PWA resources that \<open>init\<close> leaves holds the five generated and
  bundled assets.\<close>

lemma dom_memoryCache_Set: "dom (memoryCache_Set c i) = insert (item_Path i) (dom c)"
  by (simp add: memoryCache_Set_def)

lemma cachedPWAResources_initPWAResources:
  assumes "initPWAResources x h wd = Inr (h', wd')"
  shows "\<exists>c. cachedPWAResources h' = Some c \<and>
           dom c = {''/wasm_exec.js'', ''/app.js'', ''/app-worker.js'', ''/manifest.webmanifest'',
                    ''/app.css''}"
proof -
  let ?c = "memoryCache_Set (newMemoryCache 5)
                \<lparr>item_Path = ''/wasm_exec.js'', ContentType = ''application/javascript'',
                 ContentEncoding = [], item_Body = wasmExecJS x\<rparr>"
  let ?h1 = "h\<lparr>cachedPWAResources := Some ?c\<rparr>"
  from assms obtain b h2 wd1 where a: "makeAppJS x ?h1 wd = Inr (b, h2, wd1)"
    unfolding initPWAResources_def Let_def
    by (cases "makeAppJS x ?h1 wd") auto
  let ?c2 = "memoryCache_Set ?c \<lparr>item_Path = ''/app.js'', ContentType = ''application/javascript'',
                       ContentEncoding = [], item_Body = b\<rparr>"
  let ?h2 = "h2\<lparr>cachedPWAResources := Some ?c2\<rparr>"
  from assms a obtain wk where w: "makeAppWorkerJS x ?h2 = Inr wk"
    unfolding initPWAResources_def Let_def
    by (cases "makeAppWorkerJS x ?h2") auto
  let ?c3 = "memoryCache_Set ?c2 \<lparr>item_Path = ''/app-worker.js'', ContentType = ''application/javascript'',
                             ContentEncoding = [], item_Body = wk\<rparr>"
  let ?h3 = "?h2\<lparr>cachedPWAResources := Some ?c3\<rparr>"
  from assms a w obtain m where m: "makeManifestJSON x ?h3 = Inr m"
    unfolding initPWAResources_def Let_def
    by (cases "makeManifestJSON x ?h3") auto
  from assms a w m show ?thesis
    unfolding initPWAResources_def Let_def
    by (auto simp: dom_memoryCache_Set newMemoryCache_def)
qed

lemma cachedPWAResources_init:
  assumes "init x h wd = Inr (h', wd')"
  shows "\<exists>c. cachedPWAResources h' = Some c \<and>
           dom c = {''/wasm_exec.js'', ''/app.js'', ''/app-worker.js'', ''/manifest.webmanifest'',
                    ''/app.css''}"
proof -
  from init_Inr[OF assms] obtain g h9 where
    a: "initPWAResources x g wd = Inr (h9, wd')" and b: "h' = initProxyResources h9"
    by blast
  from cachedPWAResources_initPWAResources[OF a] b show ?thesis
    by (simp add: initProxyResources_def)
qed

text \<open>\<open>init\<close> returns when the three templates render: by then the resolver is
  set, and nothing else in \<open>init\<close> can panic.\<close>

lemma template_renders:
  assumes "\<forall>name text data. template_Execute x name text data \<noteq> None"
  shows "(case template_Execute x n t d of None \<Rightarrow> a | Some b \<Rightarrow> f b) =
           f (the (template_Execute x n t d))"
  using assms[rule_format, of n t d]
  by (cases "template_Execute x n t d") simp_all

lemma makeAppJS_returns:
  "Resources h = Some rs \<Longrightarrow> \<forall>name text data. template_Execute x name text data \<noteq> None \<Longrightarrow>
   \<exists>b h' wd'. makeAppJS x h wd = Inr (b, h', wd') \<and> Resources h' = Some rs"
  by (simp add: makeAppJS_def Let_def template_renders)

lemma makeAppWorkerJS_returns:
  "Resources h = Some rs \<Longrightarrow> \<forall>name text data. template_Execute x name text data \<noteq> None \<Longrightarrow>
   \<exists>b. makeAppWorkerJS x h = Inr b"
  by (simp add: makeAppWorkerJS_def Let_def template_renders)

lemma makeManifestJSON_returns:
  "Resources h = Some rs \<Longrightarrow> \<forall>name text data. template_Execute x name text data \<noteq> None \<Longrightarrow>
   \<exists>b. makeManifestJSON x h = Inr b"
  by (simp add: makeManifestJSON_def Let_def template_renders)

lemma initPWAResources_returns:
  assumes r: "Resources h = Some rs"
    and t: "\<forall>name text data. template_Execute x name text data \<noteq> None"
  shows "\<exists>h' wd'. initPWAResources x h wd = Inr (h', wd')"
proof -
  let ?c = "memoryCache_Set (newMemoryCache 5)
                \<lparr>item_Path = ''/wasm_exec.js'', ContentType = ''application/javascript'',
                 ContentEncoding = [], item_Body = wasmExecJS x\<rparr>"
  let ?h1 = "h\<lparr>cachedPWAResources := Some ?c\<rparr>"
  have r1: "Resources ?h1 = Some rs" using r by simp
  from makeAppJS_returns[OF r1 t, of wd] obtain b h2 wd1 where
    a: "makeAppJS x ?h1 wd = Inr (b, h2, wd1)" and r2: "Resources h2 = Some rs" by blast
  let ?c2 = "memoryCache_Set ?c \<lparr>item_Path = ''/app.js'', ContentType = ''application/javascript'',
                       ContentEncoding = [], item_Body = b\<rparr>"
  let ?h2 = "h2\<lparr>cachedPWAResources := Some ?c2\<rparr>"
  have r2': "Resources ?h2 = Some rs" using r2 by simp
  from makeAppWorkerJS_returns[OF r2' t] obtain wk where
    w: "makeAppWorkerJS x ?h2 = Inr wk" by blast
  let ?c3 = "memoryCache_Set ?c2 \<lparr>item_Path = ''/app-worker.js'', ContentType = ''application/javascript'',
                             ContentEncoding = [], item_Body = wk\<rparr>"
  let ?h3 = "?h2\<lparr>cachedPWAResources := Some ?c3\<rparr>"
  have r3: "Resources ?h3 = Some rs" using r2 by simp
  from makeManifestJSON_returns[OF r3 t] obtain m where
    m: "makeManifestJSON x ?h3 = Inr m" by blast
  show ?thesis
    unfolding initPWAResources_def Let_def
    by (simp only: a w m sum.case prod.case) simp
qed

lemma init_returns:
  assumes t: "\<forall>name text data. template_Execute x name text data \<noteq> None"
  shows "\<exists>h' wd'. init x h wd = Inr (h', wd')"
proof -
  let ?g = "initPageContent (initPWA (initIcon (initServiceWorker x (initLinks x
             (initLibraries (initStaticResources x (initVersion x h)))))))"
  have "Resources ?g \<noteq> None"
    by (simp only: fields_initPageContent fields_initPWA fields_initIcon
        fields_initServiceWorker fields_initLinks fields_initLibraries
        Resources_initStaticResources not_False_eq_True)
  then obtain rs where "Resources ?g = Some rs" by blast
  from initPWAResources_returns[OF this t, of wd] obtain h9 wd' where
    "initPWAResources x ?g wd = Inr (h9, wd')" by blast
  then show ?thesis
    by (simp add: init_def Let_def)
qed

lemma once_Do_init_fresh:
  "\<not> once h \<Longrightarrow> once_Do_init x h wd = Inr (h', wd') \<Longrightarrow>
   \<exists>g. init x h wd = Inr (g, wd') \<and> h' = g\<lparr>once := True\<rparr>"
  by (auto simp: once_Do_init_def split: sum.splits)

text \<open>For requests that arrive one after the other, \<open>init\<close> runs on the first and
  on no later one.\<close>

lemma once_Do_init_done: "once h \<Longrightarrow> once_Do_init x h wd = Inr (h, wd)"
  by (simp add: once_Do_init_def)

lemma once_Do_init_sets_once: "once_Do_init x h wd = Inr (h', wd') \<Longrightarrow> once h'"
  by (auto simp: once_Do_init_def split: if_splits sum.splits)

subsection \<open>The proxy-resource table\<close>

lemma configuredTable_Nil: "configuredTable [] = Map.empty"
  by (simp add: configuredTable_def)

lemma configuredTable_snoc:
  "configuredTable (prs @ [r]) = initProxyResources_step (configuredTable prs) r"
  by (simp add: configuredTable_def)

text \<open>An entry of the table built by the loop was configured, sits under its own
  path, and passed both checks of the loop.\<close>

lemma configuredTable_Some:
  "configuredTable prs p = Some r \<Longrightarrow>
     r \<in> set prs \<and> Path r = p \<and> p \<notin> set reservedPaths \<and> HasPrefix p ''/'' \<and>
     HasPrefix (ResourcePath r) ''/web/''"
proof (induction prs arbitrary: r rule: rev_induct)
  case Nil
  then show ?case by (simp add: configuredTable_Nil)
next
  case (snoc a prs)
  then show ?case
    by (auto simp: configuredTable_snoc initProxyResources_step_def split: if_splits)
qed

lemma injectDefault_apply:
  "injectDefault m k v p =
     (if p = k \<and> m k = None then Some \<lparr>Path = k, ResourcePath = v\<rparr> else m p)"
  by (simp add: injectDefault_def split: option.splits)

lemma proxyTable_apply:
  "proxyTable prs p =
     (case configuredTable prs p of
        Some r \<Rightarrow> Some r
      | None \<Rightarrow>
         if p = ''/robots.txt'' then Some \<lparr>Path = ''/robots.txt'', ResourcePath = ''/web/robots.txt''\<rparr>
         else if p = ''/sitemap.xml'' then Some \<lparr>Path = ''/sitemap.xml'', ResourcePath = ''/web/sitemap.xml''\<rparr>
         else if p = ''/ads.txt'' then Some \<lparr>Path = ''/ads.txt'', ResourcePath = ''/web/ads.txt''\<rparr>
         else None)"
  by (simp add: proxyTable_def Let_def injectDefault_apply split: option.splits)

lemma proxyTable_Some:
  "proxyTable prs p = Some r \<Longrightarrow> Path r = p \<and> p \<notin> set reservedPaths"
  by (auto simp: proxyTable_apply reservedPaths_def split: option.splits if_splits
      dest: configuredTable_Some)

subsection \<open>Dispatch\<close>

lemma ServeHTTP_Inr:
  "once_Do_init x h wd = Inr (h', wd') \<Longrightarrow>
   ServeHTTP x h w r wd =
     (if If_None_Match r = etag h' then
        Inr (h', WriteHeader (Header_Set (Header_Set w ''Cache-Control'' ''no-cache'') ''ETag'' (etag h')) 304, wd')
      else dispatch x h' (Header_Set (Header_Set w ''Cache-Control'' ''no-cache'') ''ETag'' (etag h')) r wd'
             (versionedPath h' (URL_Path r)))"
  by (simp add: ServeHTTP_def Let_def)

lemma dispatch_cached:
  "\<not> HasPrefix path ''/web/'' \<Longrightarrow>
   path \<notin> {''/app.wasm'', ''/goapp.wasm'', ''/goapp.js'', ''/manifest.json''} \<Longrightarrow>
   cachedPWAResources h = Some c \<Longrightarrow> memoryCache_Get c path = Some i \<Longrightarrow>
   dispatch x h w r wd path = Inr (h, serveCachedItem w i, wd)"
  by (simp add: dispatch_def Let_def)

lemma dispatch_proxy:
  "\<not> HasPrefix path ''/web/'' \<Longrightarrow>
   path \<notin> {''/app.wasm'', ''/goapp.wasm'', ''/goapp.js'', ''/manifest.json''} \<Longrightarrow>
   cachedPWAResources h = Some c \<Longrightarrow> memoryCache_Get c path = None \<Longrightarrow>
   proxyResources h path = Some resource \<Longrightarrow>
   dispatch x h w r wd path = serveProxyResource x h resource w r wd"
  by (simp add: dispatch_def Let_def)

lemma serveProxyResource_miss:
  "Resources h = Some rs \<Longrightarrow> cachedProxyResources h = Some c \<Longrightarrow>
   memoryCache_Get c (Path resource) = None \<Longrightarrow>
   http_Get x (fetched wd) (proxyURL rs resource r) = Some res \<Longrightarrow>
   serveProxyResource x h resource w r wd =
     (if StatusCode res \<noteq> 200 then
        Inr (h, WriteHeader w 404, wd\<lparr>fetched := fetched wd @ [proxyURL rs resource r]\<rparr>)
      else case res_Body res of
        None \<Rightarrow> Inr (h, WriteHeader w 500,
                  Log (wd\<lparr>fetched := fetched wd @ [proxyURL rs resource r]\<rparr>)
                    ''reading proxy static resource failed'')
      | Some body \<Rightarrow>
          Inr (h\<lparr>cachedProxyResources := Some (memoryCache_Set c
                    \<lparr>item_Path = Path resource, ContentType = res_ContentType res,
                     ContentEncoding = res_ContentEncoding res, item_Body = body\<rparr>)\<rparr>,
               serveCachedItem w
                    \<lparr>item_Path = Path resource, ContentType = res_ContentType res,
                     ContentEncoding = res_ContentEncoding res, item_Body = body\<rparr>,
               wd\<lparr>fetched := fetched wd @ [proxyURL rs resource r]\<rparr>))"
  by (simp add: serveProxyResource_def Let_def split: option.splits)

lemma serveProxyResource_hit:
  "Resources h = Some rs \<Longrightarrow> cachedProxyResources h = Some c \<Longrightarrow>
   memoryCache_Get c (Path resource) = Some i \<Longrightarrow>
   serveProxyResource x h resource w r wd = Inr (h, serveCachedItem w i, wd)"
  by (simp add: serveProxyResource_def Let_def)

lemma versionedPath_exact: "versionedPath h (''/'' @ Version h) = ''/'' @ Version h"
  by (simp add: versionedPath_def HasPrefix_def)

lemma versionedPath_changed:
  "versionedPath h path \<noteq> path \<Longrightarrow> HasPrefix path (''/'' @ Version h @ ''/'')"
  by (simp add: versionedPath_def split: if_splits)

lemma versionedPath_strip: "versionedPath h (''/'' @ Version h @ ''/'' @ rest) = ''/'' @ rest"
  by (simp add: versionedPath_def HasPrefix_def TrimPrefix_def)

subsection \<open>The list of resources to cache\<close>

lemma foldl_append_map: "foldl (\<lambda>acc k. acc @ [f k]) a ks = a @ map f ks"
  by (induction ks arbitrary: a) simp_all

lemma resourcesTocache_map: "resourcesTocache rs ks = sort (map (Resolve rs) ks)"
  by (simp add: resourcesTocache_def foldl_append_map)

lemma rangeOrder_mset: "rangeOrder S ks \<Longrightarrow> rangeOrder S ks' \<Longrightarrow> mset ks = mset ks'"
  unfolding rangeOrder_def using set_eq_iff_mset_eq_distinct[of ks ks'] by simp

text \<open>Two walks over the same set give the same sorted list.\<close>

lemma resourcesTocache_order:
  assumes "rangeOrder S ks" "rangeOrder S ks'"
  shows "resourcesTocache rs ks' = resourcesTocache rs ks"
proof -
  have "mset (map (Resolve rs) ks') = mset (map (Resolve rs) ks)"
    using rangeOrder_mset[OF assms] by simp
  then have "mset (sort (map (Resolve rs) ks)) = mset (map (Resolve rs) ks')"
    by simp
  then have "sort (map (Resolve rs) ks') = sort (map (Resolve rs) ks)"
    by (rule properties_for_sort) simp
  then show ?thesis by (simp add: resourcesTocache_map)
qed

text \<open>The sorted list of a walk is the sorted list of the set: each member once,
  resolved, in order.\<close>

lemma resourcesTocache_sortedAssets:
  assumes "rangeOrder S ks"
  shows "resourcesTocache rs ks = sortedAssets rs S"
proof -
  from assms have "mset_set S = mset ks"
    using mset_set_set[of ks] by (simp add: rangeOrder_def)
  then have "image_mset (Resolve rs) (mset_set S) = mset (map (Resolve rs) ks)"
    by simp
  then show ?thesis
    by (simp only: sortedAssets_def resourcesTocache_map sorted_list_of_multiset_mset)
qed

subsection \<open>The sample handler, run\<close>

text \<open>The first request to the sample handler initializes it: the version is kept,
  the ETag is the quoted version, and \<open>/app.js\<close> is in the cache of PWA resources.\<close>

lemma sample_once_Do_init:
  "\<exists>h' wd' c i.
     once_Do_init (sampleExtern upstream503 sampleKeys) sampleHandler newWorld = Inr (h', wd') \<and>
     Version h' = ''v2'' \<and> etag h' = quoted ''v2'' \<and>
     cachedPWAResources h' = Some c \<and> memoryCache_Get c ''/app.js'' = Some i \<and>
     item_Body i = response_body (ServeHTTP (sampleExtern upstream503 sampleKeys) sampleHandler
                     newWriter (getRequest ''/app.js'' []) newWorld)"
proof -
  have "case once_Do_init (sampleExtern upstream503 sampleKeys) sampleHandler newWorld of
          Inl p \<Rightarrow> False
        | Inr (h', wd') \<Rightarrow>
            Version h' = ''v2'' \<and> etag h' = quoted ''v2'' \<and>
            (case cachedPWAResources h' of
               None \<Rightarrow> False
             | Some c \<Rightarrow>
                (case memoryCache_Get c ''/app.js'' of
                   None \<Rightarrow> False
                 | Some i \<Rightarrow>
                    item_Body i =
                      response_body (ServeHTTP (sampleExtern upstream503 sampleKeys) sampleHandler
                        newWriter (getRequest ''/app.js'' []) newWorld)))"
    by code_simp
  then show ?thesis
    by (auto split: sum.splits option.splits)
qed

text \<open>The scenarios of the proxy: with the upstream down, \<open>/robots.txt\<close> is answered
  404 after one fetch, and so is the next request, after a second fetch: nothing was
  cached. With the upstream up, the body comes back with status 200, and the next
  request gets the same body with still one fetch made.\<close>

lemma sample_proxy_503:
  "response_status (ServeHTTP (sampleExtern upstream503 sampleKeys) sampleHandler newWriter
      (getRequest ''/robots.txt'' []) newWorld) = Some 404 \<and>
   fetches (ServeHTTP (sampleExtern upstream503 sampleKeys) sampleHandler newWriter
      (getRequest ''/robots.txt'' []) newWorld) = [''https://cdn.test/web/robots.txt''] \<and>
   fetches (nextRequest (sampleExtern upstream503 sampleKeys)
      (ServeHTTP (sampleExtern upstream503 sampleKeys) sampleHandler newWriter
         (getRequest ''/robots.txt'' []) newWorld)
      newWriter (getRequest ''/robots.txt'' [])) =
     [''https://cdn.test/web/robots.txt'', ''https://cdn.test/web/robots.txt'']"
  by code_simp

lemma sample_proxy_200:
  "response_status (ServeHTTP (sampleExtern upstream200 sampleKeys) sampleHandler newWriter
      (getRequest ''/robots.txt'' []) newWorld) = Some 200 \<and>
   response_body (ServeHTTP (sampleExtern upstream200 sampleKeys) sampleHandler newWriter
      (getRequest ''/robots.txt'' []) newWorld) = ''User-agent: *'' \<and>
   response_body (nextRequest (sampleExtern upstream200 sampleKeys)
      (ServeHTTP (sampleExtern upstream200 sampleKeys) sampleHandler newWriter
         (getRequest ''/robots.txt'' []) newWorld)
      newWriter (getRequest ''/robots.txt'' [])) = ''User-agent: *'' \<and>
   fetches (nextRequest (sampleExtern upstream200 sampleKeys)
      (ServeHTTP (sampleExtern upstream200 sampleKeys) sampleHandler newWriter
         (getRequest ''/robots.txt'' []) newWorld)
      newWriter (getRequest ''/robots.txt'' [])) = [''https://cdn.test/web/robots.txt'']"
  by code_simp

text \<open>The version without its quotes is not the ETag: it is answered in full.\<close>

lemma sample_unquoted_version:
  "response_status (ServeHTTP (sampleExtern upstream503 sampleKeys) sampleHandler newWriter
      (getRequest ''/app.css'' ''v2'') newWorld) = Some 200 \<and>
   response_body (ServeHTTP (sampleExtern upstream503 sampleKeys) sampleHandler newWriter
      (getRequest ''/app.css'' ''v2'') newWorld) = ''css''"
  by code_simp

section \<open>Claims\<close>

text \<open>
  Claim C2, as the code has it. Once the handler is initialized, a request whose
  \<open>If-None-Match\<close> header equals the handler's ETag gets status 304, no body, the
  two headers \<open>Cache-Control\<close> and \<open>ETag\<close> and nothing else: the handler and the world
  are left as they were, so nothing is dispatched. After a first initialization the
  ETag is the version between double quotes and the cache of PWA resources holds
  five paths. With any other value of the header the
  request is dispatched on its path, and the answer is the one of the dispatch:
  for a path held in the cache of PWA resources, status 200 and the cached bytes.
\<close>

theorem ServeHTTP_If_None_Match:
  "once_Do_init x h wd = Inr (h', wd') \<Longrightarrow> status w = None \<Longrightarrow> written w = [] \<Longrightarrow>
   (\<not> once h \<longrightarrow>
      etag h' = quoted (Version h') \<and>
      (\<exists>c. cachedPWAResources h' = Some c \<and>
           dom c = {''/wasm_exec.js'', ''/app.js'', ''/app-worker.js'', ''/manifest.webmanifest'',
                    ''/app.css''})) \<and>
   (If_None_Match r = etag h' \<longrightarrow>
      ServeHTTP x h w r wd =
        Inr (h', (Header_Set (Header_Set w ''Cache-Control'' ''no-cache'') ''ETag'' (etag h'))
                   \<lparr>status := Some 304\<rparr>, wd') \<and>
      response_status (ServeHTTP x h w r wd) = Some 304 \<and>
      response_body (ServeHTTP x h w r wd) = []) \<and>
   (If_None_Match r \<noteq> etag h' \<longrightarrow>
      ServeHTTP x h w r wd =
        dispatch x h' (Header_Set (Header_Set w ''Cache-Control'' ''no-cache'') ''ETag'' (etag h'))
          r wd' (versionedPath h' (URL_Path r)) \<and>
      (\<forall>c i. versionedPath h' (URL_Path r) \<in>
               {''/wasm_exec.js'', ''/app.js'', ''/app-worker.js'', ''/manifest.webmanifest'',
                ''/app.css''} \<and>
             cachedPWAResources h' = Some c \<and>
             memoryCache_Get c (versionedPath h' (URL_Path r)) = Some i \<longrightarrow>
         response_status (ServeHTTP x h w r wd) = Some 200 \<and>
         response_body (ServeHTTP x h w r wd) = item_Body i))"
proof (intro conjI impI allI)
  assume a: "once_Do_init x h wd = Inr (h', wd')" and w: "status w = None" "written w = []"
  let ?w = "Header_Set (Header_Set w ''Cache-Control'' ''no-cache'') ''ETag'' (etag h')"
  have w': "status ?w = None" "written ?w = []"
    using w by (simp_all add: status_Header_Set written_Header_Set)
  { assume "\<not> once h"
    from once_Do_init_fresh[OF this a] obtain g where
      g: "init x h wd = Inr (g, wd')" "h' = g\<lparr>once := True\<rparr>" by blast
    from etag_init[OF g(1)] g(2) show "etag h' = quoted (Version h')" by simp
    from cachedPWAResources_init[OF g(1)] g(2)
    show "\<exists>c. cachedPWAResources h' = Some c \<and>
           dom c = {''/wasm_exec.js'', ''/app.js'', ''/app-worker.js'', ''/manifest.webmanifest'',
                    ''/app.css''}" by simp }
  { assume m: "If_None_Match r = etag h'"
    then show s: "ServeHTTP x h w r wd = Inr (h', ?w\<lparr>status := Some 304\<rparr>, wd')"
      using a w' by (simp add: ServeHTTP_Inr WriteHeader_fresh)
    show "response_status (ServeHTTP x h w r wd) = Some 304"
      unfolding s by (simp add: response_status_def)
    show "response_body (ServeHTTP x h w r wd) = []"
      unfolding s using w' by (simp add: response_body_def) }
  { assume m: "If_None_Match r \<noteq> etag h'"
    then show d: "ServeHTTP x h w r wd = dispatch x h' ?w r wd' (versionedPath h' (URL_Path r))"
      using a by (simp add: ServeHTTP_Inr)
    fix c i
    assume p: "versionedPath h' (URL_Path r) \<in>
               {''/wasm_exec.js'', ''/app.js'', ''/app-worker.js'', ''/manifest.webmanifest'',
                ''/app.css''} \<and>
             cachedPWAResources h' = Some c \<and>
             memoryCache_Get c (versionedPath h' (URL_Path r)) = Some i"
    then have "dispatch x h' ?w r wd' (versionedPath h' (URL_Path r)) =
                 Inr (h', serveCachedItem ?w i, wd')"
      by (intro dispatch_cached[where c = c]) (auto simp: HasPrefix_def)
    with d serveCachedItem_fresh[OF w'(1), of i] w'(2)
    show "response_status (ServeHTTP x h w r wd) = Some 200"
      and "response_body (ServeHTTP x h w r wd) = item_Body i"
      by (simp_all add: response_status_def response_body_def) }
qed

text \<open>The sample handler, version \<open>v2\<close>: the quoted version is answered 304 with no
  body, the stale \<open>"v1"\<close> gets \<open>/app.js\<close> with status 200.\<close>

theorem ServeHTTP_If_None_Match_witness:
  "\<exists>h' wd'.
     once_Do_init (sampleExtern upstream503 sampleKeys) sampleHandler newWorld = Inr (h', wd') \<and>
     status newWriter = None \<and> written newWriter = [] \<and>
     If_None_Match (getRequest ''/app.js'' (quoted ''v2'')) = etag h' \<and>
     If_None_Match (getRequest ''/app.js'' (quoted ''v1'')) \<noteq> etag h' \<and>
     response_status (ServeHTTP (sampleExtern upstream503 sampleKeys) sampleHandler newWriter
        (getRequest ''/app.js'' (quoted ''v2'')) newWorld) = Some 304 \<and>
     response_body (ServeHTTP (sampleExtern upstream503 sampleKeys) sampleHandler newWriter
        (getRequest ''/app.js'' (quoted ''v2'')) newWorld) = [] \<and>
     response_status (ServeHTTP (sampleExtern upstream503 sampleKeys) sampleHandler newWriter
        (getRequest ''/app.js'' (quoted ''v1'')) newWorld) = Some 200"
proof -
  from sample_once_Do_init obtain h' wd' c i where
    a: "once_Do_init (sampleExtern upstream503 sampleKeys) sampleHandler newWorld = Inr (h', wd')"
    and v: "Version h' = ''v2''" and e: "etag h' = quoted ''v2''"
    and c: "cachedPWAResources h' = Some c" "memoryCache_Get c ''/app.js'' = Some i"
    by blast
  let ?fresh = "getRequest ''/app.js'' (quoted ''v2'')"
  let ?stale = "getRequest ''/app.js'' (quoted ''v1'')"
  have n: "status newWriter = None" "written newWriter = []"
    by (simp_all add: newWriter_def)
  have m2: "If_None_Match ?fresh = etag h'"
    by (simp add: getRequest_def e)
  have m1: "If_None_Match ?stale \<noteq> etag h'"
    by (simp add: getRequest_def e quoted_def)
  have p: "versionedPath h' (URL_Path ?stale) = ''/app.js''"
    by (simp add: versionedPath_def HasPrefix_def v getRequest_def)
  from ServeHTTP_If_None_Match[OF a n, of ?fresh, THEN conjunct2, THEN conjunct1, rule_format,
      OF m2]
  have s2: "response_status (ServeHTTP (sampleExtern upstream503 sampleKeys) sampleHandler
              newWriter ?fresh newWorld) = Some 304"
    "response_body (ServeHTTP (sampleExtern upstream503 sampleKeys) sampleHandler
              newWriter ?fresh newWorld) = []"
    by blast+
  from ServeHTTP_If_None_Match[OF a n, of ?stale, THEN conjunct2, THEN conjunct2, rule_format,
      OF m1, THEN conjunct2, rule_format, of c i] c p
  have s1: "response_status (ServeHTTP (sampleExtern upstream503 sampleKeys) sampleHandler
              newWriter ?stale newWorld) = Some 200"
    by simp
  from a n m2 m1 s2 s1 show ?thesis
    by blast
qed

text \<open>Claim C2 as it is written fails: the sample handler resolves to a remote
  origin and serves no files; its ETag is \<open>"v2"\<close>, and a request for \<open>/app.wasm\<close>
  with the stale \<open>"v1"\<close> is answered 404, not 200.\<close>

theorem ServeHTTP_stale_etag_not_200:
  "response_header (ServeHTTP (sampleExtern upstream503 sampleKeys) sampleHandler newWriter
      (getRequest ''/app.wasm'' (quoted ''v1'')) newWorld) ''ETag'' = Some (quoted ''v2'') \<and>
   response_status (ServeHTTP (sampleExtern upstream503 sampleKeys) sampleHandler newWriter
      (getRequest ''/app.wasm'' (quoted ''v1'')) newWorld) = Some 404"
  by code_simp

text \<open>
  Claim C3. Two generations of the service worker for the same handler, with the
  same resolver, templates and JSON encoder, differ at most in the order in which
  the runtime walks the set of resources; whatever the two walks, the outputs are
  equal (both the same bytes or both the same panic). The output is the one the
  specification describes: the template is executed on the version and on the JSON
  of the list that holds every member of the set once, resolved through the
  resolver, sorted in the lexicographic order on bytes; a failing template and a nil
  resolver are panics. That list is the one \<open>makeAppWorkerJS\<close> builds from its
  walk; it is sorted, its elements are the resolved members of the set, and it has
  one entry for each member of the set.
\<close>

theorem makeAppWorkerJS_deterministic:
  "rangeOrder (workerResources (ulib x) h) (range_resources x (workerResources (ulib x) h)) \<Longrightarrow>
   rangeOrder (workerResources (ulib x) h) (walk (workerResources (ulib x) h)) \<Longrightarrow>
   makeAppWorkerJS (x\<lparr>range_resources := walk\<rparr>) h = makeAppWorkerJS x h \<and>
   makeAppWorkerJS x h = describedWorkerJS x h \<and>
   (\<forall>rs. Resources h = Some rs \<longrightarrow>
      makeAppWorkerJS x h =
        (case template_Execute x ''app-worker.js'' (ServiceWorkerTemplate h)
                [(''Version'', Version h),
                 (''ResourcesToCache'',
                  jsonString_list x
                    (resourcesTocache rs (range_resources x (workerResources (ulib x) h))))] of
           None \<Rightarrow> Inl (Panic ''initializing app-worker.js failed'')
         | Some b \<Rightarrow> Inr b) \<and>
      resourcesTocache rs (range_resources x (workerResources (ulib x) h)) =
        sortedAssets rs (workerResources (ulib x) h) \<and>
      mset (resourcesTocache rs (range_resources x (workerResources (ulib x) h))) =
        image_mset (Resolve rs) (mset_set (workerResources (ulib x) h)) \<and>
      sorted (resourcesTocache rs (range_resources x (workerResources (ulib x) h))) \<and>
      set (resourcesTocache rs (range_resources x (workerResources (ulib x) h))) =
        Resolve rs ` workerResources (ulib x) h \<and>
      length (resourcesTocache rs (range_resources x (workerResources (ulib x) h))) =
        card (workerResources (ulib x) h))"
proof (intro conjI allI impI)
  assume a: "rangeOrder (workerResources (ulib x) h) (range_resources x (workerResources (ulib x) h))"
    and b: "rangeOrder (workerResources (ulib x) h) (walk (workerResources (ulib x) h))"
  show "makeAppWorkerJS (x\<lparr>range_resources := walk\<rparr>) h = makeAppWorkerJS x h"
    by (simp add: makeAppWorkerJS_def Let_def resourcesTocache_order[OF a b] split: option.splits)
  show "makeAppWorkerJS x h = describedWorkerJS x h"
    by (cases "Resources h")
      (simp_all add: makeAppWorkerJS_def describedWorkerJS_def Let_def
        resourcesTocache_sortedAssets[OF a])
  fix rs
  assume r: "Resources h = Some rs"
  show "makeAppWorkerJS x h =
        (case template_Execute x ''app-worker.js'' (ServiceWorkerTemplate h)
                [(''Version'', Version h),
                 (''ResourcesToCache'',
                  jsonString_list x
                    (resourcesTocache rs (range_resources x (workerResources (ulib x) h))))] of
           None \<Rightarrow> Inl (Panic ''initializing app-worker.js failed'')
         | Some b \<Rightarrow> Inr b)"
    using r by (simp add: makeAppWorkerJS_def Let_def)
  show s: "resourcesTocache rs (range_resources x (workerResources (ulib x) h)) =
        sortedAssets rs (workerResources (ulib x) h)"
    by (rule resourcesTocache_sortedAssets[OF a])
  show "mset (resourcesTocache rs (range_resources x (workerResources (ulib x) h))) =
        image_mset (Resolve rs) (mset_set (workerResources (ulib x) h))"
    unfolding s by (simp add: sortedAssets_def)
  show "sorted (resourcesTocache rs (range_resources x (workerResources (ulib x) h)))"
    by (simp add: resourcesTocache_map)
  show "set (resourcesTocache rs (range_resources x (workerResources (ulib x) h))) =
        Resolve rs ` workerResources (ulib x) h"
    using a by (simp add: resourcesTocache_map rangeOrder_def)
  show "length (resourcesTocache rs (range_resources x (workerResources (ulib x) h))) =
        card (workerResources (ulib x) h)"
    using a distinct_card[of "range_resources x (workerResources (ulib x) h)"]
    by (simp add: resourcesTocache_map rangeOrder_def)
qed

text \<open>The sample handler, its resources walked forwards and backwards: the two
  walks differ, the two service workers do not; both are the described one, the
  version followed by the seven resolved resources in order.\<close>

theorem makeAppWorkerJS_deterministic_witness:
  "rangeOrder (workerResources (ulib (sampleExtern upstream503 sampleKeys)) sampleHandler)
     (range_resources (sampleExtern upstream503 sampleKeys)
        (workerResources (ulib (sampleExtern upstream503 sampleKeys)) sampleHandler)) \<and>
   rangeOrder (workerResources (ulib (sampleExtern upstream503 sampleKeys)) sampleHandler)
     (reverseWalk
        (workerResources (ulib (sampleExtern upstream503 sampleKeys)) sampleHandler)) \<and>
   range_resources (sampleExtern upstream503 sampleKeys)
        (workerResources (ulib (sampleExtern upstream503 sampleKeys)) sampleHandler) \<noteq>
     reverseWalk
        (workerResources (ulib (sampleExtern upstream503 sampleKeys)) sampleHandler) \<and>
   makeAppWorkerJS
     ((sampleExtern upstream503 sampleKeys)
        \<lparr>range_resources := reverseWalk\<rparr>) sampleHandler =
     makeAppWorkerJS (sampleExtern upstream503 sampleKeys) sampleHandler \<and>
   describedWorkerJS (sampleExtern upstream503 sampleKeys) sampleHandler =
     makeAppWorkerJS (sampleExtern upstream503 sampleKeys) sampleHandler \<and>
   makeAppWorkerJS (sampleExtern upstream503 sampleKeys) sampleHandler =
     Inr (''v2'' @ ''https://cdn.test/,'' @ ''https://cdn.test/app.css,'' @
          ''https://cdn.test/app.js,'' @ ''https://cdn.test/b.css,'' @
          ''https://cdn.test/manifest.webmanifest,'' @ ''https://cdn.test/wasm_exec.js,'' @
          ''https://cdn.test/web/app.wasm,'')"
proof -
  have a: "rangeOrder (workerResources (ulib (sampleExtern upstream503 sampleKeys)) sampleHandler)
     (range_resources (sampleExtern upstream503 sampleKeys)
        (workerResources (ulib (sampleExtern upstream503 sampleKeys)) sampleHandler))"
    by code_simp
  have b: "rangeOrder (workerResources (ulib (sampleExtern upstream503 sampleKeys)) sampleHandler)
     (reverseWalk
        (workerResources (ulib (sampleExtern upstream503 sampleKeys)) sampleHandler))"
    by code_simp
  have c: "range_resources (sampleExtern upstream503 sampleKeys)
        (workerResources (ulib (sampleExtern upstream503 sampleKeys)) sampleHandler) \<noteq>
     reverseWalk
        (workerResources (ulib (sampleExtern upstream503 sampleKeys)) sampleHandler)"
    by code_simp
  have d: "makeAppWorkerJS (sampleExtern upstream503 sampleKeys) sampleHandler =
     Inr (''v2'' @ ''https://cdn.test/,'' @ ''https://cdn.test/app.css,'' @
          ''https://cdn.test/app.js,'' @ ''https://cdn.test/b.css,'' @
          ''https://cdn.test/manifest.webmanifest,'' @ ''https://cdn.test/wasm_exec.js,'' @
          ''https://cdn.test/web/app.wasm,'')"
    by code_simp
  from makeAppWorkerJS_deterministic[where x = "sampleExtern upstream503 sampleKeys"
      and h = sampleHandler and walk = reverseWalk, OF a b]
  have e: "makeAppWorkerJS
     ((sampleExtern upstream503 sampleKeys)
        \<lparr>range_resources := reverseWalk\<rparr>) sampleHandler =
     makeAppWorkerJS (sampleExtern upstream503 sampleKeys) sampleHandler"
    and f: "makeAppWorkerJS (sampleExtern upstream503 sampleKeys) sampleHandler =
     describedWorkerJS (sampleExtern upstream503 sampleKeys) sampleHandler"
    by blast+
  from a b c d e f show ?thesis
    by (intro conjI) simp_all
qed

text \<open>
  Claim C4. A proxy resource that is not in the proxy cache is fetched; when the
  upstream answers with a status other than 200, the response gets status 404 and
  nothing else, whatever that status was, and the handler, its proxy cache with it,
  is returned as it was. The fetch is the only change to the world.
\<close>

theorem serveProxyResource_upstream_not_200:
  "Resources h = Some rs \<Longrightarrow> cachedProxyResources h = Some c \<Longrightarrow>
   memoryCache_Get c (Path resource) = None \<Longrightarrow>
   http_Get x (fetched wd) (proxyURL rs resource r) = Some res \<Longrightarrow> StatusCode res \<noteq> 200 \<Longrightarrow>
   status w = None \<Longrightarrow>
   serveProxyResource x h resource w r wd =
     Inr (h, w\<lparr>status := Some 404\<rparr>, wd\<lparr>fetched := fetched wd @ [proxyURL rs resource r]\<rparr>)"
  by (simp add: serveProxyResource_miss WriteHeader_fresh)

text \<open>The upstream answers 503 for \<open>/robots.txt\<close>.\<close>

theorem serveProxyResource_upstream_not_200_witness:
  "Resources (sampleHandler\<lparr>cachedProxyResources := Some (newMemoryCache 0)\<rparr>) = Some remoteResolver \<and>
   memoryCache_Get (newMemoryCache 0) (Path robots) = None \<and>
   http_Get (sampleExtern upstream503 sampleKeys) (fetched newWorld)
     (proxyURL remoteResolver robots (getRequest ''/robots.txt'' [])) =
     Some (http_Response 503 ''text/plain'' [] (Some ''unavailable'')) \<and>
   serveProxyResource (sampleExtern upstream503 sampleKeys)
     (sampleHandler\<lparr>cachedProxyResources := Some (newMemoryCache 0)\<rparr>) robots newWriter
     (getRequest ''/robots.txt'' []) newWorld =
     Inr (sampleHandler\<lparr>cachedProxyResources := Some (newMemoryCache 0)\<rparr>,
          newWriter\<lparr>status := Some 404\<rparr>,
          newWorld\<lparr>fetched := fetched newWorld @
             [proxyURL remoteResolver robots (getRequest ''/robots.txt'' [])]\<rparr>)"
proof -
  let ?h = "sampleHandler\<lparr>cachedProxyResources := Some (newMemoryCache 0)\<rparr>"
  have a: "Resources ?h = Some remoteResolver"
    by (simp add: sampleHandler_def)
  have b: "cachedProxyResources ?h = Some (newMemoryCache 0)"
    by simp
  have c: "memoryCache_Get (newMemoryCache 0) (Path robots) = None"
    by (simp add: memoryCache_Get_def newMemoryCache_def)
  have d: "http_Get (sampleExtern upstream503 sampleKeys) (fetched newWorld)
     (proxyURL remoteResolver robots (getRequest ''/robots.txt'' [])) =
     Some (http_Response 503 ''text/plain'' [] (Some ''unavailable''))"
    by (simp add: sampleExtern_def upstream503_def)
  have e: "StatusCode (http_Response 503 ''text/plain'' [] (Some ''unavailable'')) \<noteq> 200"
    by simp
  have f: "status newWriter = None"
    by (simp add: newWriter_def)
  from serveProxyResource_upstream_not_200[OF a b c d e f] a c d show ?thesis
    by simp
qed

text \<open>
  Claim C5. A proxy resource that is not in the proxy cache is fetched; when the
  upstream answers 200 with body \<open>B\<close>, the response has status 200 and body \<open>B\<close>, and
  the proxy cache then holds, under the public path, the item made of the upstream's
  content type, content encoding and body. Any later request for the same resource
  gets status 200 and the same bytes \<open>B\<close> from that item, and leaves the handler and
  the world, the list of fetches with it, as they are: there is no second fetch.
\<close>

theorem serveProxyResource_upstream_200:
  "Resources h = Some rs \<Longrightarrow> cachedProxyResources h = Some c \<Longrightarrow>
   memoryCache_Get c (Path resource) = None \<Longrightarrow>
   http_Get x (fetched wd) (proxyURL rs resource r) = Some res \<Longrightarrow> StatusCode res = 200 \<Longrightarrow>
   res_Body res = Some B \<Longrightarrow> status w = None \<Longrightarrow> written w = [] \<Longrightarrow>
   \<exists>h1 w1 wd1 c1.
     serveProxyResource x h resource w r wd = Inr (h1, w1, wd1) \<and>
     status w1 = Some 200 \<and> written w1 = B \<and>
     fetched wd1 = fetched wd @ [proxyURL rs resource r] \<and>
     cachedProxyResources h1 = Some c1 \<and>
     memoryCache_Get c1 (Path resource) =
       Some \<lparr>item_Path = Path resource, ContentType = res_ContentType res,
             ContentEncoding = res_ContentEncoding res, item_Body = B\<rparr> \<and>
     (\<forall>w' r'. status w' = None \<and> written w' = [] \<longrightarrow>
        (\<exists>w2. serveProxyResource x h1 resource w' r' wd1 = Inr (h1, w2, wd1) \<and>
              status w2 = Some 200 \<and> written w2 = B))"
proof -
  assume a: "Resources h = Some rs" "cachedProxyResources h = Some c"
    "memoryCache_Get c (Path resource) = None"
    "http_Get x (fetched wd) (proxyURL rs resource r) = Some res" "StatusCode res = 200"
    "res_Body res = Some B" and w: "status w = None" "written w = []"
  let ?item = "\<lparr>item_Path = Path resource, ContentType = res_ContentType res,
             ContentEncoding = res_ContentEncoding res, item_Body = B\<rparr>"
  let ?c1 = "memoryCache_Set c ?item"
  let ?h1 = "h\<lparr>cachedProxyResources := Some ?c1\<rparr>"
  let ?wd1 = "wd\<lparr>fetched := fetched wd @ [proxyURL rs resource r]\<rparr>"
  have first: "serveProxyResource x h resource w r wd = Inr (?h1, serveCachedItem w ?item, ?wd1)"
    using a by (simp add: serveProxyResource_miss)
  have get: "memoryCache_Get ?c1 (Path resource) = Some ?item"
    by (simp add: memoryCache_Get_def memoryCache_Set_def)
  have second:
    "serveProxyResource x ?h1 resource w' r' ?wd1 = Inr (?h1, serveCachedItem w' ?item, ?wd1)"
    for w' r'
    using a(1) get by (simp add: serveProxyResource_hit[where rs = rs and c = ?c1])
  have served: "status (serveCachedItem v ?item) = Some 200 \<and> written (serveCachedItem v ?item) = B"
    if "status v = None" "written v = []" for v
    using serveCachedItem_fresh[OF that(1), of ?item] that(2) by simp
  show ?thesis
    apply (rule exI[of _ ?h1], rule exI[of _ "serveCachedItem w ?item"], rule exI[of _ ?wd1],
        rule exI[of _ ?c1])
    using first get second served w by simp
qed

text \<open>The upstream answers 200 with a body of thirteen bytes for \<open>/robots.txt\<close>;
  the second request is served without a fetch.\<close>

theorem serveProxyResource_upstream_200_witness:
  "Resources (sampleHandler\<lparr>cachedProxyResources := Some (newMemoryCache 0)\<rparr>) = Some remoteResolver \<and>
   memoryCache_Get (newMemoryCache 0) (Path robots) = None \<and>
   http_Get (sampleExtern upstream200 sampleKeys) (fetched newWorld)
     (proxyURL remoteResolver robots (getRequest ''/robots.txt'' [])) =
     Some (http_Response 200 ''text/plain'' ''gzip'' (Some ''User-agent: *'')) \<and>
   (\<exists>h1 w1 wd1.
      serveProxyResource (sampleExtern upstream200 sampleKeys)
        (sampleHandler\<lparr>cachedProxyResources := Some (newMemoryCache 0)\<rparr>) robots newWriter
        (getRequest ''/robots.txt'' []) newWorld = Inr (h1, w1, wd1) \<and>
      status w1 = Some 200 \<and> written w1 = ''User-agent: *'' \<and>
      fetched wd1 = [proxyURL remoteResolver robots (getRequest ''/robots.txt'' [])] \<and>
      (\<exists>w2. serveProxyResource (sampleExtern upstream200 sampleKeys) h1 robots newWriter
               (getRequest ''/robots.txt'' []) wd1 = Inr (h1, w2, wd1) \<and>
            status w2 = Some 200 \<and> written w2 = ''User-agent: *''))"
proof -
  let ?h = "sampleHandler\<lparr>cachedProxyResources := Some (newMemoryCache 0)\<rparr>"
  have a: "Resources ?h = Some remoteResolver"
    by (simp add: sampleHandler_def)
  have b: "cachedProxyResources ?h = Some (newMemoryCache 0)"
    by simp
  have c: "memoryCache_Get (newMemoryCache 0) (Path robots) = None"
    by (simp add: memoryCache_Get_def newMemoryCache_def)
  have d: "http_Get (sampleExtern upstream200 sampleKeys) (fetched newWorld)
     (proxyURL remoteResolver robots (getRequest ''/robots.txt'' [])) =
     Some (http_Response 200 ''text/plain'' ''gzip'' (Some ''User-agent: *''))"
    by (simp add: sampleExtern_def upstream200_def)
  have e: "StatusCode (http_Response 200 ''text/plain'' ''gzip'' (Some ''User-agent: *'')) = 200"
    by simp
  have f: "res_Body (http_Response 200 ''text/plain'' ''gzip'' (Some ''User-agent: *'')) =
             Some ''User-agent: *''"
    by simp
  have g: "status newWriter = None" "written newWriter = []"
    by (simp_all add: newWriter_def)
  have n: "fetched newWorld = []"
    by (simp add: newWorld_def)
  from serveProxyResource_upstream_200[OF a b c d e f g]
  obtain h1 w1 wd1 where
    k: "serveProxyResource (sampleExtern upstream200 sampleKeys) ?h robots newWriter
          (getRequest ''/robots.txt'' []) newWorld = Inr (h1, w1, wd1)"
       "status w1 = Some 200" "written w1 = ''User-agent: *''"
       "fetched wd1 = fetched newWorld @ [proxyURL remoteResolver robots (getRequest ''/robots.txt'' [])]"
    and l: "\<forall>w' r'. status w' = None \<and> written w' = [] \<longrightarrow>
        (\<exists>w2. serveProxyResource (sampleExtern upstream200 sampleKeys) h1 robots w' r' wd1 =
                 Inr (h1, w2, wd1) \<and>
              status w2 = Some 200 \<and> written w2 = ''User-agent: *'')"
    by blast
  from l g obtain w2 where
    m: "serveProxyResource (sampleExtern upstream200 sampleKeys) h1 robots newWriter
          (getRequest ''/robots.txt'' []) wd1 = Inr (h1, w2, wd1)"
       "status w2 = Some 200" "written w2 = ''User-agent: *''"
    by blast
  from a c d k m n show ?thesis
    by auto
qed

text \<open>
  Claim C6. No reserved path is a key of the proxy-resource table that
  \<open>initProxyResources\<close> builds, whatever the configured list holds, and no entry of
  the table has a reserved path as its public path. The reserved paths are those of
  the \<open>switch\<close>: \<open>/wasm_exec.js\<close>, \<open>/goapp.js\<close>, \<open>/app.js\<close>, \<open>/app-worker.js\<close>,
  \<open>/manifest.json\<close>, \<open>/manifest.webmanifest\<close>, \<open>/app.css\<close>, \<open>/app.wasm\<close>,
  \<open>/goapp.wasm\<close> and \<open>/\<close>.
\<close>

theorem initProxyResources_reserved:
  "p \<in> set reservedPaths \<Longrightarrow>
   proxyResources (initProxyResources h) p = None \<and>
   (\<forall>q r. proxyResources (initProxyResources h) q = Some r \<longrightarrow> Path r \<noteq> p)"
  using proxyTable_Some[of "ProxyResources h"]
  by (cases "proxyTable (ProxyResources h) p") (auto simp: initProxyResources_def)

text \<open>A proxy resource configured under \<open>/app.js\<close> is not in the table.\<close>

theorem initProxyResources_reserved_witness:
  "''/app.js'' \<in> set reservedPaths \<and>
   proxyResources
     (initProxyResources
        (zeroHandler\<lparr>ProxyResources := [\<lparr>Path = ''/app.js'', ResourcePath = ''/web/other.js''\<rparr>]\<rparr>))
     ''/app.js'' = None"
proof -
  have m: "''/app.js'' \<in> set reservedPaths"
    by (simp add: reservedPaths_def)
  from initProxyResources_reserved[OF m] m show ?thesis
    by blast
qed

text \<open>
  Claim C7, as the code has it. When no configured proxy resource has the public
  path \<open>/robots.txt\<close>, \<open>/sitemap.xml\<close> or \<open>/ads.txt\<close>, the table maps these three
  paths to \<open>/web/robots.txt\<close>, \<open>/web/sitemap.xml\<close> and \<open>/web/ads.txt\<close>. In every
  case the keys of the table are the keys the loop over the configuration has put
  there and these three, no other; and an entry the loop has put there is still
  there at the end: a default is added only under a key that is free.
\<close>

theorem initProxyResources_defaults:
  "((\<forall>r \<in> set (ProxyResources h). Path r \<notin> {''/robots.txt'', ''/sitemap.xml'', ''/ads.txt''}) \<longrightarrow>
      proxyResources (initProxyResources h) ''/robots.txt'' =
        Some \<lparr>Path = ''/robots.txt'', ResourcePath = ''/web/robots.txt''\<rparr> \<and>
      proxyResources (initProxyResources h) ''/sitemap.xml'' =
        Some \<lparr>Path = ''/sitemap.xml'', ResourcePath = ''/web/sitemap.xml''\<rparr> \<and>
      proxyResources (initProxyResources h) ''/ads.txt'' =
        Some \<lparr>Path = ''/ads.txt'', ResourcePath = ''/web/ads.txt''\<rparr>) \<and>
   dom (proxyResources (initProxyResources h)) =
     dom (configuredTable (ProxyResources h)) \<union> {''/robots.txt'', ''/sitemap.xml'', ''/ads.txt''} \<and>
   (\<forall>p r. configuredTable (ProxyResources h) p = Some r \<longrightarrow>
      proxyResources (initProxyResources h) p = Some r)"
proof (intro conjI impI allI)
  let ?prs = "ProxyResources h"
  have t: "proxyResources (initProxyResources h) = proxyTable ?prs"
    by (simp add: initProxyResources_def)
  { assume a: "\<forall>r \<in> set ?prs. Path r \<notin> {''/robots.txt'', ''/sitemap.xml'', ''/ads.txt''}"
    have n: "configuredTable ?prs p = None"
      if "p \<in> {''/robots.txt'', ''/sitemap.xml'', ''/ads.txt''}" for p
    proof (cases "configuredTable ?prs p")
      case (Some r)
      from configuredTable_Some[OF Some] a that show ?thesis by blast
    qed simp
    show "proxyResources (initProxyResources h) ''/robots.txt'' =
        Some \<lparr>Path = ''/robots.txt'', ResourcePath = ''/web/robots.txt''\<rparr>"
      using n[of "''/robots.txt''"] by (simp add: t proxyTable_apply)
    show "proxyResources (initProxyResources h) ''/sitemap.xml'' =
        Some \<lparr>Path = ''/sitemap.xml'', ResourcePath = ''/web/sitemap.xml''\<rparr>"
      using n[of "''/sitemap.xml''"] by (simp add: t proxyTable_apply)
    show "proxyResources (initProxyResources h) ''/ads.txt'' =
        Some \<lparr>Path = ''/ads.txt'', ResourcePath = ''/web/ads.txt''\<rparr>"
      using n[of "''/ads.txt''"] by (simp add: t proxyTable_apply) }
  show "dom (proxyResources (initProxyResources h)) =
     dom (configuredTable ?prs) \<union> {''/robots.txt'', ''/sitemap.xml'', ''/ads.txt''}"
    unfolding t by (auto simp: proxyTable_apply dom_def split: option.splits if_splits)
  { fix p r assume "configuredTable ?prs p = Some r"
    then show "proxyResources (initProxyResources h) p = Some r"
      by (simp add: t proxyTable_apply) }
qed

text \<open>With nothing configured the table has the three defaults and no other key;
  a resource configured under \<open>/robots.txt\<close> is kept.\<close>

theorem initProxyResources_defaults_witness:
  "ProxyResources zeroHandler = [] \<and>
   proxyResources (initProxyResources zeroHandler) ''/robots.txt'' = Some robots \<and>
   dom (proxyResources (initProxyResources zeroHandler)) =
     {''/robots.txt'', ''/sitemap.xml'', ''/ads.txt''} \<and>
   configuredTable
     (ProxyResources (zeroHandler\<lparr>ProxyResources :=
        [\<lparr>Path = ''/robots.txt'', ResourcePath = ''/web/my-robots.txt''\<rparr>]\<rparr>)) ''/robots.txt'' =
     Some \<lparr>Path = ''/robots.txt'', ResourcePath = ''/web/my-robots.txt''\<rparr> \<and>
   proxyResources
     (initProxyResources (zeroHandler\<lparr>ProxyResources :=
        [\<lparr>Path = ''/robots.txt'', ResourcePath = ''/web/my-robots.txt''\<rparr>]\<rparr>)) ''/robots.txt'' =
     Some \<lparr>Path = ''/robots.txt'', ResourcePath = ''/web/my-robots.txt''\<rparr>"
proof -
  have a: "\<forall>r \<in> set (ProxyResources zeroHandler).
      Path r \<notin> {''/robots.txt'', ''/sitemap.xml'', ''/ads.txt''}"
    by (simp add: zeroHandler_def)
  have b: "dom (configuredTable (ProxyResources zeroHandler)) = {}"
    by (simp add: zeroHandler_def configuredTable_def)
  have c: "configuredTable
     (ProxyResources (zeroHandler\<lparr>ProxyResources :=
        [\<lparr>Path = ''/robots.txt'', ResourcePath = ''/web/my-robots.txt''\<rparr>]\<rparr>)) ''/robots.txt'' =
     Some \<lparr>Path = ''/robots.txt'', ResourcePath = ''/web/my-robots.txt''\<rparr>"
    by (simp add: configuredTable_def initProxyResources_step_def reservedPaths_def HasPrefix_def)
  have d: "ProxyResources zeroHandler = []"
    by (simp add: zeroHandler_def)
  from initProxyResources_defaults[of zeroHandler]
    initProxyResources_defaults[of "zeroHandler\<lparr>ProxyResources :=
        [\<lparr>Path = ''/robots.txt'', ResourcePath = ''/web/my-robots.txt''\<rparr>]\<rparr>"] a b c d
  show ?thesis
    by (simp add: robots_def)
qed

text \<open>Claim C7 as it is written fails where it says that the table holds exactly
  the three paths: a resource configured under \<open>/feed.xml\<close> is none of the three and
  is in the table as well.\<close>

theorem initProxyResources_fourth_path:
  "ProxyResources (zeroHandler\<lparr>ProxyResources := [feed]\<rparr>) = [feed] \<and>
   Path feed = ''/feed.xml'' \<and>
   ''/feed.xml'' \<notin> {''/robots.txt'', ''/sitemap.xml'', ''/ads.txt''} \<and>
   proxyResources (initProxyResources (zeroHandler\<lparr>ProxyResources := [feed]\<rparr>)) ''/feed.xml'' =
     Some feed"
  by (simp add: feed_def initProxyResources_def proxyTable_apply configuredTable_def
      initProxyResources_step_def reservedPaths_def HasPrefix_def)

text \<open>
  Claim C8. \<open>parseHTTPResource\<close> returns the descriptor that the grammar describes:
  over the pieces between spaces, trimmed, the empty ones dropped, lowercased, the
  URL is the last token that is no modifier, the loading mode is the last \<open>defer\<close>
  or \<open>async\<close>, the cross-origin policy comes from the last \<open>crossorigin\<close> token,
  \<open>true\<close> for the bare word and the value after \<open>=\<close> otherwise; a field with no
  token of its kind is empty. The string of the scenario parses to the URL
  \<open>https://x.test/a.js\<close>, cross-origin \<open>true\<close>, loading mode \<open>async\<close>.
\<close>

theorem parseHTTPResource_described:
  "parseHTTPResource u v = describedResource u v \<and>
   parseHTTPResource u ''https://x.test/a.js crossorigin async'' =
     \<lparr>URL = ''https://x.test/a.js'', LoadingMode = ''async'', CrossOrigin = ''true''\<rparr>"
proof
  show "parseHTTPResource u v = describedResource u v"
    unfolding parseHTTPResource_def describedResource_def tokens_def
    using foldl_parseHTTPResource_elem[of u httpResource_zero "Split v CHR '' ''"]
    by (simp add: httpResource_zero_def)
  show "parseHTTPResource u ''https://x.test/a.js crossorigin async'' =
     \<lparr>URL = ''https://x.test/a.js'', LoadingMode = ''async'', CrossOrigin = ''true''\<rparr>"
    by code_simp
qed

text \<open>Two URLs, upper case, a doubled space and a policy with a value: the last
  URL wins.\<close>

theorem parseHTTPResource_described_witness:
  "parseHTTPResource (ulib (sampleExtern upstream503 sampleKeys))
     ''A.JS  Defer /B.js crossorigin=Anonymous'' =
     describedResource (ulib (sampleExtern upstream503 sampleKeys))
       ''A.JS  Defer /B.js crossorigin=Anonymous'' \<and>
   parseHTTPResource (ulib (sampleExtern upstream503 sampleKeys))
     ''A.JS  Defer /B.js crossorigin=Anonymous'' =
     \<lparr>URL = ''/b.js'', LoadingMode = ''defer'', CrossOrigin = ''anonymous''\<rparr>"
proof -
  have e: "parseHTTPResource (ulib (sampleExtern upstream503 sampleKeys))
     ''A.JS  Defer /B.js crossorigin=Anonymous'' =
     \<lparr>URL = ''/b.js'', LoadingMode = ''defer'', CrossOrigin = ''anonymous''\<rparr>"
    by code_simp
  from parseHTTPResource_described[of "ulib (sampleExtern upstream503 sampleKeys)"
      "''A.JS  Defer /B.js crossorigin=Anonymous''"] e
  show ?thesis
    by blast
qed

text \<open>
  Claim C9. When the four fields of the icon are empty and \<open>init\<close> returns, the
  handler's \<open>Icon.Default\<close> and \<open>Icon.Large\<close> are the bundled PNG, \<open>Icon.Maskable\<close>
  equals \<open>Icon.Default\<close>, and \<open>Icon.SVG\<close> is the bundled SVG.
\<close>

theorem init_Icon_zero:
  "Icon h = \<lparr>Default = [], Large = [], SVG = [], Maskable = []\<rparr> \<Longrightarrow>
   init x h wd = Inr (h', wd') \<Longrightarrow>
   Default (Icon h') =
     ''https://raw.githubusercontent.com/maxence-charriere/go-app/master/docs/web/icon.png'' \<and>
   Large (Icon h') =
     ''https://raw.githubusercontent.com/maxence-charriere/go-app/master/docs/web/icon.png'' \<and>
   Maskable (Icon h') = Default (Icon h') \<and>
   SVG (Icon h') =
     ''https://raw.githubusercontent.com/maxence-charriere/go-app/master/docs/web/icon.svg''"
  using Icon_init[of x h wd h' wd'] Icon_initIcon_zero by fastforce

text \<open>\<open>init\<close> on the zero handler returns, with the placeholders in place.\<close>

theorem init_Icon_zero_witness:
  "Icon zeroHandler = \<lparr>Default = [], Large = [], SVG = [], Maskable = []\<rparr> \<and>
   (\<exists>h' wd'.
      init (sampleExtern upstream503 sampleKeys) zeroHandler newWorld = Inr (h', wd') \<and>
      Default (Icon h') =
        ''https://raw.githubusercontent.com/maxence-charriere/go-app/master/docs/web/icon.png'' \<and>
      Large (Icon h') =
        ''https://raw.githubusercontent.com/maxence-charriere/go-app/master/docs/web/icon.png'' \<and>
      Maskable (Icon h') = Default (Icon h') \<and>
      SVG (Icon h') =
        ''https://raw.githubusercontent.com/maxence-charriere/go-app/master/docs/web/icon.svg'')"
proof -
  have z: "Icon zeroHandler = \<lparr>Default = [], Large = [], SVG = [], Maskable = []\<rparr>"
    by (simp add: zeroHandler_def zeroIcon_def)
  have "\<not> isl (init (sampleExtern upstream503 sampleKeys) zeroHandler newWorld)"
    by code_simp
  then obtain h' wd' where
    i: "init (sampleExtern upstream503 sampleKeys) zeroHandler newWorld = Inr (h', wd')"
    by (cases "init (sampleExtern upstream503 sampleKeys) zeroHandler newWorld") auto
  from init_Icon_zero[OF z i] z i show ?thesis
    by blast
qed

text \<open>
  Claim C10. The path is changed by the version-prefix step only when it begins
  with \<open>/\<close>, the version and \<open>/\<close>. The path that is exactly \<open>/\<close> followed by the
  version is left as it is, and a request for it (whose \<open>If-None-Match\<close> does not
  match) is dispatched on that very path.
\<close>

theorem ServeHTTP_version_prefix:
  "once_Do_init x h wd = Inr (h', wd') \<Longrightarrow>
   (versionedPath h' path \<noteq> path \<longrightarrow> HasPrefix path (''/'' @ Version h' @ ''/'')) \<and>
   versionedPath h' (''/'' @ Version h') = ''/'' @ Version h' \<and>
   (URL_Path r = ''/'' @ Version h' \<and> If_None_Match r \<noteq> etag h' \<longrightarrow>
      ServeHTTP x h w r wd =
        dispatch x h' (Header_Set (Header_Set w ''Cache-Control'' ''no-cache'') ''ETag'' (etag h'))
          r wd' (URL_Path r))"
  using versionedPath_changed[of h' path] versionedPath_exact[of h']
  by (auto simp: ServeHTTP_Inr)

text \<open>The sample handler, version \<open>v2\<close>: \<open>/v2/app.js\<close> loses its prefix, \<open>/v2\<close> is
  dispatched as \<open>/v2\<close>.\<close>

theorem ServeHTTP_version_prefix_witness:
  "\<exists>h' wd'.
     once_Do_init (sampleExtern upstream503 sampleKeys) sampleHandler newWorld = Inr (h', wd') \<and>
     URL_Path (getRequest ''/v2'' []) = ''/'' @ Version h' \<and>
     If_None_Match (getRequest ''/v2'' []) \<noteq> etag h' \<and>
     versionedPath h' ''/v2/app.js'' \<noteq> ''/v2/app.js'' \<and>
     HasPrefix ''/v2/app.js'' (''/'' @ Version h' @ ''/'') \<and>
     versionedPath h' ''/v2'' = ''/v2'' \<and>
     ServeHTTP (sampleExtern upstream503 sampleKeys) sampleHandler newWriter
       (getRequest ''/v2'' []) newWorld =
       dispatch (sampleExtern upstream503 sampleKeys) h'
         (Header_Set (Header_Set newWriter ''Cache-Control'' ''no-cache'') ''ETag'' (etag h'))
         (getRequest ''/v2'' []) wd' ''/v2''"
proof -
  from sample_once_Do_init obtain h' wd' where
    a: "once_Do_init (sampleExtern upstream503 sampleKeys) sampleHandler newWorld = Inr (h', wd')"
    and v: "Version h' = ''v2''" and e: "etag h' = quoted ''v2''"
    by blast
  have s: "versionedPath h' ''/v2/app.js'' \<noteq> ''/v2/app.js''"
    using versionedPath_strip[of h' "''app.js''"] by (simp add: v)
  have p: "URL_Path (getRequest ''/v2'' []) = ''/'' @ Version h'"
    "If_None_Match (getRequest ''/v2'' []) \<noteq> etag h'"
    by (simp_all add: getRequest_def v e quoted_def)
  from ServeHTTP_version_prefix[OF a, of "''/v2/app.js''" "getRequest ''/v2'' []" newWriter]
    a s p v
  show ?thesis
    by (intro exI[of _ h'] exI[of _ wd']) simp
qed

end
